theory Spec2Isabelle
  imports Main
begin

section \<open>JavaScript values\<close>

text \<open>
  The add-on library passes untyped values around (\<^verbatim>\<open>any\<close>): parsed messages, property
  values, fields read out of a message.  They are modelled by one datatype.  Numbers are
  the integral ones (\<open>int\<close>); \<^verbatim>\<open>NaN\<close> only arises as the result of a failed
  conversion and is the \<open>None\<close> of \<open>ToNumber\<close> below.
\<close>

datatype jsval =
    JUndefined
  | JNull
  | JBool bool
  | JNum int
  | JStr string
  | JArr "jsval list"
  | JObj "(string \<times> jsval) list"

text \<open>Truthiness, as used by \<^verbatim>\<open>if (x)\<close>, \<^verbatim>\<open>x || y\<close>, \<^verbatim>\<open>x && y\<close> and \<^verbatim>\<open>!!x\<close>.\<close>

fun truthy :: "jsval \<Rightarrow> bool" where
  "truthy JUndefined = False"
| "truthy JNull = False"
| "truthy (JBool b) = b"
| "truthy (JNum n) = (n \<noteq> 0)"
| "truthy (JStr s) = (s \<noteq> [])"
| "truthy (JArr _) = True"
| "truthy (JObj _) = True"

text \<open>
  Optional fields (\<^verbatim>\<open>minimum?: number\<close>, \<^verbatim>\<open>readOnly?: boolean\<close>, \<^verbatim>\<open>title?: string\<close>) are
  options, \<open>None\<close> for \<^verbatim>\<open>undefined\<close>; their truthiness follows the table above.
\<close>

definition truthy_num :: "int option \<Rightarrow> bool" where
  "truthy_num m = (case m of None \<Rightarrow> False | Some n \<Rightarrow> n \<noteq> 0)"

definition truthy_bool :: "bool option \<Rightarrow> bool" where
  "truthy_bool b = (case b of None \<Rightarrow> False | Some x \<Rightarrow> x)"

definition truthy_str :: "string option \<Rightarrow> bool" where
  "truthy_str s = (case s of None \<Rightarrow> False | Some x \<Rightarrow> x \<noteq> [])"

text \<open>\<^verbatim>\<open>a || b\<close> on optional fields: \<^verbatim>\<open>a\<close> when it is truthy, else \<^verbatim>\<open>b\<close>.\<close>

definition or_num :: "int option \<Rightarrow> int option \<Rightarrow> int option" where
  "or_num a b = (if truthy_num a then a else b)"

definition or_str :: "string option \<Rightarrow> string option \<Rightarrow> string option" where
  "or_str a b = (if truthy_str a then a else b)"

subsection \<open>Conversion to string\<close>

text \<open>
  The decimal digits of a number, as \<^verbatim>\<open>ToString\<close> gives them for an integer below
  \<^verbatim>\<open>1e21\<close> in absolute value (from there on the runtime switches to exponent notation).
\<close>

definition digit_char :: "nat \<Rightarrow> char" where
  "digit_char d = char_of (48 + d)"

function show_nat :: "nat \<Rightarrow> string" where
  "show_nat n = (if n < 10 then [digit_char n] else show_nat (n div 10) @ [digit_char (n mod 10)])"
  by pat_completeness auto
termination
  by (relation "measure id") auto

declare show_nat.simps [simp del]

definition show_int :: "int \<Rightarrow> string" where
  "show_int i = (if i < 0 then CHR ''-'' # show_nat (nat (- i)) else show_nat (nat i))"

fun join_comma :: "string list \<Rightarrow> string" where
  "join_comma [] = []"
| "join_comma [s] = s"
| "join_comma (s # t # ss) = s @ '','' @ join_comma (t # ss)"

text \<open>
  \<^verbatim>\<open>ToString\<close>, as applied by a template literal \<^verbatim>\<open>`${v}`\<close>: an array is its elements
  joined by commas, with \<^verbatim>\<open>null\<close> and \<^verbatim>\<open>undefined\<close> elements empty; a plain object is
  \<^verbatim>\<open>[object Object]\<close>.
\<close>

fun toString :: "jsval \<Rightarrow> string" where
  "toString JUndefined = ''undefined''"
| "toString JNull = ''null''"
| "toString (JBool b) = (if b then ''true'' else ''false'')"
| "toString (JNum n) = show_int n"
| "toString (JStr s) = s"
| "toString (JArr xs) =
     join_comma (map (\<lambda>x. if x = JUndefined \<or> x = JNull then [] else toString x) xs)"
| "toString (JObj _) = ''[object Object]''"

subsection \<open>Conversion to number, comparison, remainder\<close>

text \<open>
  \<^verbatim>\<open>ToNumber\<close>; \<open>None\<close> is \<^verbatim>\<open>NaN\<close>.  The conversion of a string to a number belongs to
  the runtime and is the parameter \<open>sn\<close> (\<^verbatim>\<open>StringToNumber\<close>) of everything that compares
  values.  Arrays and objects are converted through their string.
\<close>

fun toNumber :: "(string \<Rightarrow> int option) \<Rightarrow> jsval \<Rightarrow> int option" where
  "toNumber sn JUndefined = None"
| "toNumber sn JNull = Some 0"
| "toNumber sn (JBool b) = Some (if b then 1 else 0)"
| "toNumber sn (JNum n) = Some n"
| "toNumber sn (JStr s) = sn s"
| "toNumber sn (JArr xs) = sn (toString (JArr xs))"
| "toNumber sn (JObj kvs) = sn (toString (JObj kvs))"

text \<open>\<^verbatim>\<open>v < n\<close> and \<^verbatim>\<open>v > n\<close> for a number \<^verbatim>\<open>n\<close>: false when \<^verbatim>\<open>v\<close> converts to \<^verbatim>\<open>NaN\<close>.\<close>

definition js_lt :: "(string \<Rightarrow> int option) \<Rightarrow> jsval \<Rightarrow> int \<Rightarrow> bool" where
  "js_lt sn v n = (case toNumber sn v of None \<Rightarrow> False | Some x \<Rightarrow> x < n)"

definition js_gt :: "(string \<Rightarrow> int option) \<Rightarrow> jsval \<Rightarrow> int \<Rightarrow> bool" where
  "js_gt sn v n = (case toNumber sn v of None \<Rightarrow> False | Some x \<Rightarrow> x > n)"

text \<open>
  \<^verbatim>\<open>v % n\<close>: the remainder takes the sign of the dividend; \<^verbatim>\<open>NaN\<close> for a \<^verbatim>\<open>NaN\<close>
  dividend and for \<^verbatim>\<open>n = 0\<close>.
\<close>

definition js_rem :: "(string \<Rightarrow> int option) \<Rightarrow> jsval \<Rightarrow> int \<Rightarrow> int option" where
  "js_rem sn v n =
     (case toNumber sn v of
        None \<Rightarrow> None
      | Some x \<Rightarrow> if n = 0 then None else Some (sgn x * (\<bar>x\<bar> mod \<bar>n\<bar>)))"

text \<open>
  \<^verbatim>\<open>a !== b\<close>.  Primitives are compared by type and value.  Arrays and objects are
  compared by reference, which a value model does not have: every array or object is taken
  to be a fresh one (as each one that \<^verbatim>\<open>JSON.parse\<close> returns is), so it differs from
  everything.
\<close>

fun strict_neq :: "jsval \<Rightarrow> jsval \<Rightarrow> bool" where
  "strict_neq (JArr _) _ = True"
| "strict_neq (JObj _) _ = True"
| "strict_neq _ (JArr _) = True"
| "strict_neq _ (JObj _) = True"
| "strict_neq a b = (a \<noteq> b)"

text \<open>\<^verbatim>\<open>arr.includes(v)\<close> for an array of strings \<^verbatim>\<open>arr\<close>.\<close>

definition array_includes :: "string list \<Rightarrow> jsval \<Rightarrow> bool" where
  "array_includes arr v = (case v of JStr s \<Rightarrow> s \<in> set arr | _ \<Rightarrow> False)"

section \<open>Property\<close>

text \<open>
  The description object handed to a \<^verbatim>\<open>Property\<close> constructor: the fields of
  \<^verbatim>\<open>PropertyDescription\<close> and of \<^verbatim>\<open>LegacyPropertyDescription\<close>, each optional.  The field
  \<^verbatim>\<open>x\<close> of the source is \<open>d_x\<close> here; \<open>None\<close> is a description without the field (a
  field that is present and holds \<^verbatim>\<open>undefined\<close> is not represented).  A description is an
  object, so the constructors' assertion on \<^verbatim>\<open>typeof propertyDescr\<close> holds.
\<close>

record property_description =
  d_visible :: "bool option"
  d_title :: "string option"
  d_label :: "string option"
  d_type :: "string option"
  d_atType :: "string option"
  d_unit :: "string option"
  d_description :: "string option"
  d_minimum :: "int option"
  d_min :: "int option"
  d_maximum :: "int option"
  d_max :: "int option"
  d_enum :: "string list option"
  d_readOnly :: "bool option"
  d_multipleOf :: "int option"
  d_links :: "string list option"

text \<open>
  A \<^verbatim>\<open>Property\<close> object.  \<open>device\<close> is the id of the device the property belongs to (the
  source holds a reference to the \<^verbatim>\<open>Device\<close>); \<open>ptype\<close>, \<open>penum\<close> and \<open>pvalue\<close> are the
  source's \<^verbatim>\<open>type\<close>, \<^verbatim>\<open>enum\<close> and \<^verbatim>\<open>value\<close>.
\<close>

record property =
  device :: string
  name :: string
  propertyDescr :: property_description
  visible :: bool
  title :: "string option"
  ptype :: "string option"
  atType :: "string option"
  unit :: "string option"
  description :: "string option"
  minimum :: "int option"
  maximum :: "int option"
  penum :: "string list option"
  readOnly :: "bool option"
  multipleOf :: "int option"
  links :: "string list option"
  pvalue :: jsval
  prevGetValue :: jsval
  fireAndForget :: bool

text \<open>
  The constructor of the legacy, untyped class (the first \<^verbatim>\<open>Property\<close> of property.ts).
  \<^verbatim>\<open>propertyDescr.visible || true\<close> is written as the \<^verbatim>\<open>||\<close> it is.
\<close>

definition LegacyProperty :: "string \<Rightarrow> string \<Rightarrow> property_description \<Rightarrow> property" where
  "LegacyProperty dev nm d =
     \<lparr> device = dev, name = nm, propertyDescr = d,
       visible = (if truthy_bool (d_visible d) then the (d_visible d) else True),
       title = or_str (d_title d) (d_label d),
       ptype = d_type d,
       atType = d_atType d,
       unit = d_unit d,
       description = d_description d,
       minimum = or_num (d_minimum d) (d_min d),
       maximum = or_num (d_maximum d) (d_max d),
       penum = d_enum d,
       readOnly = d_readOnly d,
       multipleOf = d_multipleOf d,
       links = d_links d,
       pvalue = JUndefined, prevGetValue = JUndefined, fireAndForget = False \<rparr>"

text \<open>
  The generic class \<^verbatim>\<open>Property<T>\<close>: \<^verbatim>\<open>fromLegacyProperties\<close>, \<^verbatim>\<open>assign\<close> and the
  constructor.  \<^verbatim>\<open>{ visible: this.visible, ...legacyPropertyDescr }.visible\<close> is the
  description's \<^verbatim>\<open>visible\<close> when it has one, and the field initialiser \<^verbatim>\<open>true\<close> otherwise.
\<close>

definition fromLegacyProperties :: "property_description \<Rightarrow> property_description" where
  "fromLegacyProperties d =
     d \<lparr> d_title := or_str (d_title d) (d_label d),
         d_minimum := or_num (d_minimum d) (d_min d),
         d_maximum := or_num (d_maximum d) (d_max d) \<rparr>"

definition assign :: "property \<Rightarrow> property_description \<Rightarrow> property" where
  "assign target source =
     target \<lparr> title := d_title source,
              ptype := d_type source,
              atType := d_atType source,
              unit := d_unit source,
              description := d_description source,
              minimum := d_minimum source,
              maximum := d_maximum source,
              penum := d_enum source,
              readOnly := d_readOnly source,
              multipleOf := d_multipleOf source,
              links := d_links source \<rparr>"

definition Property :: "string \<Rightarrow> string \<Rightarrow> property_description \<Rightarrow> property" where
  "Property dev nm d =
     assign
       \<lparr> device = dev, name = nm, propertyDescr = d,
         visible = (case d_visible d of Some b \<Rightarrow> b | None \<Rightarrow> True),
         title = None, ptype = None, atType = None, unit = None, description = None,
         minimum = None, maximum = None, penum = None, readOnly = None,
         multipleOf = None, links = None,
         pvalue = JUndefined, prevGetValue = JUndefined, fireAndForget = False \<rparr>
       (fromLegacyProperties d)"

definition isVisible :: "property \<Rightarrow> bool" where
  "isVisible p = visible p"

section \<open>Effects\<close>

text \<open>
  What a method does besides updating the objects it owns is recorded as a list of effects,
  in the order of the source's statements: console output, calls into the transport
  (nanomsg), the file system and the promise machinery, and calls of collaborators whose
  code is elsewhere (the manager proxy, a socket's message handler).
\<close>

datatype proxy = AddonManagerProxy string

datatype handler = OnManagerMsg string | ProxyOnMsg proxy

datatype effect =
    ConsoleLog "jsval list"
  | ConsoleError "jsval list"
  | SendPropertyChangedNotification property
  | NanoSocket nat string
  | NanoBind nat string
  | NanoConnect nat string
  | NanoClose nat
  | NanoSend nat jsval
  | FsUnlink string
  | CallOnMsg handler jsval
  | ResolveFunc nat proxy
  | Emit string jsval

text \<open>
  \<^verbatim>\<open>Device.notifyPropertyChanged\<close>: hands the property to
  \<^verbatim>\<open>this.adapter.manager.sendPropertyChangedNotification\<close>.
\<close>

definition notifyPropertyChanged :: "property \<Rightarrow> effect list" where
  "notifyPropertyChanged p = [SendPropertyChangedNotification p]"

definition setCachedValue :: "property \<Rightarrow> jsval \<Rightarrow> property" where
  "setCachedValue p v =
     (if ptype p = Some ''boolean'' then p \<lparr> pvalue := JBool (truthy v) \<rparr>
      else p \<lparr> pvalue := v \<rparr>)"

definition setCachedValueAndNotify :: "property \<Rightarrow> jsval \<Rightarrow> bool \<times> property \<times> effect list" where
  "setCachedValueAndNotify p v =
     (let oldValue = pvalue p;
          p' = setCachedValue p v;
          hasChanged = strict_neq oldValue (pvalue p')
      in if hasChanged
         then (hasChanged, p',
               notifyPropertyChanged p' @
               [ConsoleLog [JStr ''setCachedValueAndNotify for property'', JStr (name p'),
                            JStr ''from'', oldValue, JStr ''to'', pvalue p',
                            JStr ''for'', JStr (device p')]])
         else (hasChanged, p', []))"

text \<open>
  \<^verbatim>\<open>setValue\<close>: the promise it returns is settled inside the executor, before \<^verbatim>\<open>setValue\<close>
  returns; \<open>Inl\<close> is the rejection with its reason, \<open>Inr\<close> the value it resolves to.
\<close>

definition setValue ::
  "(string \<Rightarrow> int option) \<Rightarrow> property \<Rightarrow> jsval \<Rightarrow> (string + jsval) \<times> property \<times> effect list" where
  "setValue sn p v =
     (if truthy_bool (readOnly p) then (Inl ''Read-only property'', p, [])
      else if truthy_num (minimum p) \<and> js_lt sn v (the (minimum p))
        then (Inl (''Value less than minimum: '' @ show_int (the (minimum p))), p, [])
      else if truthy_num (maximum p) \<and> js_gt sn v (the (maximum p))
        then (Inl (''Value greater than maximum: '' @ show_int (the (maximum p))), p, [])
      else if truthy_num (multipleOf p) \<and> js_rem sn v (the (multipleOf p)) \<noteq> Some 0
        then (Inl (''Value is not a multiple of: '' @ show_int (the (multipleOf p))), p, [])
      else if penum p \<noteq> None \<and> length (the (penum p)) > 0 \<and> \<not> array_includes (the (penum p)) v
        then (Inl ''Invalid enum value'', p, [])
      else (case setCachedValueAndNotify p v of
              (_, p', effs) \<Rightarrow> (Inr (pvalue p'), p', effs)))"

section \<open>Device\<close>

text \<open>
  The part of a \<^verbatim>\<open>Device\<close> that property access uses: its id, its title and the map of
  its properties (\<^verbatim>\<open>Map<string, Property>\<close>).  A property object is mutated in place in the
  source; the model writes the updated property back into the map.
\<close>

record device_obj =
  dev_id :: string
  dev_title :: string
  properties :: "string \<rightharpoonup> property"

definition findProperty :: "device_obj \<Rightarrow> string \<Rightarrow> property option" where
  "findProperty d propertyName = properties d propertyName"

definition hasProperty :: "device_obj \<Rightarrow> string \<Rightarrow> bool" where
  "hasProperty d propertyName = (propertyName \<in> dom (properties d))"

definition setProperty ::
  "(string \<Rightarrow> int option) \<Rightarrow> device_obj \<Rightarrow> string \<Rightarrow> jsval \<Rightarrow> (string + jsval) \<times> device_obj \<times> effect list" where
  "setProperty sn d propertyName v =
     (case findProperty d propertyName of
        Some p \<Rightarrow>
          (case setValue sn p v of
             (r, p', effs) \<Rightarrow> (r, d \<lparr> properties := (properties d)(propertyName \<mapsto> p') \<rparr>, effs))
      | None \<Rightarrow> (Inl (''Property \"'' @ propertyName @ ''\" not found''), d, []))"

section \<open>The world outside the objects\<close>

text \<open>
  The module-level variables of ipc.ts (\<^verbatim>\<open>boundAddrs\<close>, \<^verbatim>\<open>connectedAddrs\<close>, \<^verbatim>\<open>socketId\<close>,
  here \<open>socketIdCounter\<close>) and of deferred.ts (\<^verbatim>\<open>id\<close>, here \<open>deferredId\<close>), the
  promises created so far, each with its state, the files that exist, the endpoints that
  the transport has bound, and the effects so far.
\<close>

datatype promise_state = Pending | Resolved proxy | Rejected jsval

record world =
  boundAddrs :: "string set"
  connectedAddrs :: "string set"
  socketIdCounter :: nat
  deferredId :: nat
  promises :: "(nat \<times> promise_state) list"
  files :: "string set"
  endpoints :: "(nat \<times> string) list"
  trace :: "effect list"

definition emit :: "effect \<Rightarrow> world \<Rightarrow> world" where
  "emit e w = w \<lparr> trace := trace w @ [e] \<rparr>"

text \<open>A value thrown by the code: a \<^verbatim>\<open>TypeError\<close> of the runtime, or the operand of a \<^verbatim>\<open>throw\<close>.\<close>

datatype thrown = TypeError | Thrown jsval

text \<open>
  \<^verbatim>\<open>v.k\<close>: reading a member of \<^verbatim>\<open>undefined\<close> or \<^verbatim>\<open>null\<close> throws; a key that an object does
  not have reads as \<^verbatim>\<open>undefined\<close>, and so do the keys that the source reads
  (\<^verbatim>\<open>messageType\<close>, \<^verbatim>\<open>data\<close>, \<^verbatim>\<open>gatewayVersion\<close>, \<^verbatim>\<open>userProfile\<close>, \<^verbatim>\<open>ipcBaseAddr\<close>) on every
  other value.
\<close>

fun get_member :: "jsval \<Rightarrow> string \<Rightarrow> thrown + jsval" where
  "get_member JUndefined k = Inl TypeError"
| "get_member JNull k = Inl TypeError"
| "get_member (JObj kvs) k = Inr (case map_of kvs k of Some v \<Rightarrow> v | None \<Rightarrow> JUndefined)"
| "get_member _ k = Inr JUndefined"

text \<open>\<^verbatim>\<open>v.k1.k2\<close>.\<close>

definition get_member2 :: "jsval \<Rightarrow> string \<Rightarrow> string \<Rightarrow> thrown + jsval" where
  "get_member2 v k1 k2 = (case get_member v k1 of Inl e \<Rightarrow> Inl e | Inr u \<Rightarrow> get_member u k2)"

section \<open>Deferred\<close>

text \<open>
  \<^verbatim>\<open>new Deferred()\<close> takes the next id and creates a pending promise; \<^verbatim>\<open>resolve(arg)\<close>
  calls the promise's resolve function, which settles a pending promise and leaves a
  settled one as it is.  The argument, the manager proxy, is an object that is not itself
  a promise, so the promise is resolved with it.
\<close>

definition Deferred :: "world \<Rightarrow> nat \<times> world" where
  "Deferred w =
     (let i = deferredId w + 1
      in (i, w \<lparr> deferredId := i, promises := promises w @ [(i, Pending)] \<rparr>))"

definition settle :: "nat \<Rightarrow> promise_state \<Rightarrow> nat \<times> promise_state \<Rightarrow> nat \<times> promise_state" where
  "settle i st' e = (if fst e = i \<and> snd e = Pending then (i, st') else e)"

definition resolve :: "nat \<Rightarrow> proxy \<Rightarrow> world \<Rightarrow> world" where
  "resolve i arg w =
     emit (ResolveFunc i arg) (w \<lparr> promises := map (settle i (Resolved arg)) (promises w) \<rparr>)"

section \<open>IpcSocket\<close>

record ipc_socket =
  sockName :: string
  socketType :: string
  protocol :: string
  onMsg :: handler
  socketId :: nat
  ipcFile :: string
  ipcAddr :: string
  logPrefix :: string
  connected :: bool
  bound :: bool

definition padStart :: "nat \<Rightarrow> string \<Rightarrow> string" where
  "padStart n s = replicate (n - length s) (CHR '' '') @ s"

definition padEnd :: "nat \<Rightarrow> string \<Rightarrow> string" where
  "padEnd n s = s @ replicate (n - length s) (CHR '' '')"

text \<open>
  The constructor.  The module counter is incremented before the protocol is looked at, so
  it is incremented also when the constructor throws.  The validator that the constructor
  builds from the schema directory is the parameter \<open>validate\<close> of \<open>onData\<close> below.
\<close>

definition IpcSocket ::
  "string \<Rightarrow> string \<Rightarrow> string \<Rightarrow> jsval \<Rightarrow> handler \<Rightarrow> string \<Rightarrow> world \<Rightarrow> (thrown + ipc_socket) \<times> world" where
  "IpcSocket nm sockType proto baseAddr handler appInstance w =
     (let sid = socketIdCounter w + 1;
          w1 = emit (NanoSocket sid sockType) (w \<lparr> socketIdCounter := sid \<rparr>)
      in if proto = ''ipc'' \<or> proto = ''inproc'' then
           (let file = (if proto = ''ipc'' then ''/tmp/'' @ toString baseAddr
                        else appInstance @ ''-'' @ toString baseAddr)
            in (Inr \<lparr> sockName = nm, socketType = sockType, protocol = proto, onMsg = handler,
                      socketId = sid, ipcFile = file,
                      ipcAddr = proto @ ''://'' @ file,
                      logPrefix = ''IpcSocket'' @ padStart 3 (show_nat sid) @ '': '' @
                                  padEnd 18 nm @ '':'',
                      connected = False, bound = False \<rparr>,
                w1))
         else
           (let err = ''Unsupported IPC protocol: '' @ proto
            in (Inl (Thrown (JStr err)), emit (ConsoleError [JStr err]) w1)))"

text \<open>\<^verbatim>\<open>this.error(...args)\<close>: \<^verbatim>\<open>console.error\<close> with the log prefix in front.\<close>

definition error :: "ipc_socket \<Rightarrow> jsval list \<Rightarrow> world \<Rightarrow> world" where
  "error s args w = emit (ConsoleError (JStr (logPrefix s) # args)) w"

text \<open>
  The transport, nanomsg, is a dependency of the repository.  What its \<^verbatim>\<open>bind\<close> and
  \<^verbatim>\<open>close\<close> do is written here as far as \<^verbatim>\<open>IpcSocket\<close> depends on it.  \<open>endpoints\<close>
  holds the endpoints that are bound, each with the id of its socket.  Binding an
  \<^verbatim>\<open>inproc\<close> address that an endpoint holds throws an \<^verbatim>\<open>Error\<close> (\<^verbatim>\<open>Address already in use\<close>);
  so does binding an \<^verbatim>\<open>ipc\<close> address that an endpoint holds while its socket file exists.
  A bind that succeeds adds the endpoint and, for \<^verbatim>\<open>ipc\<close>, creates the socket file, which
  stays when the socket is closed.  Closing a socket removes its endpoints.
\<close>

definition address_in_use :: "ipc_socket \<Rightarrow> world \<Rightarrow> bool" where
  "address_in_use s w =
     (if protocol s = ''ipc''
      then ipcAddr s \<in> set (map snd (endpoints w)) \<and> ipcFile s \<in> files w
      else ipcAddr s \<in> set (map snd (endpoints w)))"

definition nn_bind :: "ipc_socket \<Rightarrow> world \<Rightarrow> thrown option \<times> world" where
  "nn_bind s w =
     (let w1 = emit (NanoBind (socketId s) (ipcAddr s)) w
      in if address_in_use s w
         then (Some (Thrown (JStr ''Address already in use'')), w1)
         else (None,
               w1 \<lparr> endpoints := endpoints w1 @ [(socketId s, ipcAddr s)],
                    files := (if protocol s = ''ipc'' then insert (ipcFile s) (files w1)
                              else files w1) \<rparr>))"

definition nn_close :: "ipc_socket \<Rightarrow> world \<Rightarrow> world" where
  "nn_close s w =
     (emit (NanoClose (socketId s)) w)
       \<lparr> endpoints := filter (\<lambda>e. fst e \<noteq> socketId s) (endpoints w) \<rparr>"

text \<open>
  \<^verbatim>\<open>bind\<close>.  Its last statement returns what the transport's \<^verbatim>\<open>bind\<close> returns, outside any
  \<^verbatim>\<open>try\<close>: \<open>Inl\<close> is what the transport throws, with the socket and the world as the
  statements before it left them.
\<close>

definition bind :: "ipc_socket \<Rightarrow> world \<Rightarrow> (thrown + unit) \<times> ipc_socket \<times> world" where
  "bind s w =
     (let w1 = (if bound s then error s [JStr ''socket already bound:'', JStr (ipcAddr s)] w else w);
          w2 = (if connected s
                then error s [JStr ''socket already connected:'', JStr (ipcAddr s)] w1 else w1);
          s' = s \<lparr> bound := True \<rparr>;
          w3 = (if socketType s = ''pair''
                then (let w' = (if ipcAddr s \<in> boundAddrs w2
                                then error s [JStr ''address already bound:'', JStr (ipcAddr s)] w2
                                else w2)
                      in w' \<lparr> boundAddrs := insert (ipcAddr s) (boundAddrs w') \<rparr>)
                else w2);
          w4 = (if protocol s = ''ipc''
                then (if ipcFile s \<in> files w3
                      then emit (FsUnlink (ipcFile s)) (w3 \<lparr> files := files w3 - {ipcFile s} \<rparr>)
                      else w3)
                else w3)
      in ((case fst (nn_bind s w4) of None \<Rightarrow> Inr () | Some e \<Rightarrow> Inl e),
          s', snd (nn_bind s w4)))"

definition connect :: "ipc_socket \<Rightarrow> world \<Rightarrow> ipc_socket \<times> world" where
  "connect s w =
     (let w1 = (if bound s then error s [JStr ''socket already bound:'', JStr (ipcAddr s)] w else w);
          w2 = (if connected s
                then error s [JStr ''socket already connected:'', JStr (ipcAddr s)] w1 else w1);
          s' = s \<lparr> connected := True \<rparr>;
          w3 = (if socketType s = ''pair''
                then (let w' = (if ipcAddr s \<in> connectedAddrs w2
                                then error s [JStr ''address already connected:'', JStr (ipcAddr s)] w2
                                else w2)
                      in w' \<lparr> connectedAddrs := insert (ipcAddr s) (connectedAddrs w') \<rparr>)
                else w2)
      in (s', emit (NanoConnect (socketId s) (ipcAddr s)) w3))"

definition close :: "ipc_socket \<Rightarrow> world \<Rightarrow> ipc_socket \<times> world" where
  "close s w =
     (let (s', w') =
            (if connected s then
               (s \<lparr> connected := False \<rparr>,
                if socketType s = ''pair''
                then w \<lparr> connectedAddrs := connectedAddrs w - {ipcAddr s} \<rparr> else w)
             else if bound s then
               (s \<lparr> bound := False \<rparr>,
                if socketType s = ''pair''
                then w \<lparr> boundAddrs := boundAddrs w - {ipcAddr s} \<rparr> else w)
             else
               (s, error s [JStr ''socket not connected or bound:'', JStr (ipcAddr s)] w))
      in (s', nn_close s w'))"

text \<open>
  \<^verbatim>\<open>onData\<close>.  \<open>buf\<close> is the text of the frame (\<^verbatim>\<open>buf.toString()\<close>).  \<^verbatim>\<open>JSON.parse\<close> is the
  parameter \<open>parse\<close>: \<open>Inl\<close> the error it throws, \<open>Inr\<close> the value.  The validator built
  by the constructor is the parameter \<open>validate\<close>, applied to the parsed value (the source
  wraps it as \<^verbatim>\<open>{ message: data }\<close>).  Calling the handler is the effect \<open>CallOnMsg\<close>.
\<close>

definition onData ::
  "(string \<Rightarrow> jsval + jsval) \<Rightarrow> (jsval \<Rightarrow> bool) \<Rightarrow> ipc_socket \<Rightarrow> string \<Rightarrow> world \<Rightarrow> world" where
  "onData parse validate s buf w =
     (let bufStr = buf
      in case parse bufStr of
           Inl err \<Rightarrow>
             error s [err]
               (error s [JStr (''Rcvd: \"'' @ bufStr @ ''\"'')]
                 (error s [JStr ''Error parsing message as JSON''] w))
         | Inr data \<Rightarrow>
             (let w1 = (if \<not> validate data
                        then emit (ConsoleError [JStr ''Invalid message received:'', data]) w
                        else w)
              in emit (CallOnMsg (onMsg s) data) w1))"

definition sendJson :: "ipc_socket \<Rightarrow> jsval \<Rightarrow> world \<Rightarrow> world" where
  "sendJson s obj w = emit (NanoSend (socketId s) obj) w"

section \<open>PluginClient\<close>

text \<open>
  Modelled from the spec: the two members of \<^verbatim>\<open>MessageType\<close> (module constants, which is
  not among the sources) that the client uses; the spec's wire format gives a message type
  as the string of its name.
\<close>

definition PLUGIN_REGISTER_REQUEST :: jsval where
  "PLUGIN_REGISTER_REQUEST = JStr ''PLUGIN_REGISTER_REQUEST''"

definition PLUGIN_REGISTER_RESPONSE :: jsval where
  "PLUGIN_REGISTER_RESPONSE = JStr ''PLUGIN_REGISTER_RESPONSE''"

text \<open>
  What \<^verbatim>\<open>IpcSocket\<close> names in the client's module.  The client reads it as the named import
  \<^verbatim>\<open>import { IpcSocket } from './ipc'\<close>.  The module of the socket declares
  \<^verbatim>\<open>export class IpcSocket\<close> and ends with \<^verbatim>\<open>module.exports = IpcSocket\<close>: that last statement
  replaces the exports object, which held the named export, by the class, and the class
  has no member \<^verbatim>\<open>IpcSocket\<close>.  So the name is \<^verbatim>\<open>undefined\<close> in the client, not the
  class, and \<^verbatim>\<open>new IpcSocket(...)\<close> there throws a \<^verbatim>\<open>TypeError\<close> before a statement of the
  constructor runs.
\<close>

definition IpcSocket_imported :: bool where
  "IpcSocket_imported = False"

definition new_IpcSocket ::
  "string \<Rightarrow> string \<Rightarrow> string \<Rightarrow> jsval \<Rightarrow> handler \<Rightarrow> string \<Rightarrow> world \<Rightarrow> (thrown + ipc_socket) \<times> world" where
  "new_IpcSocket nm sockType proto baseAddr handler appInstance w =
     (if IpcSocket_imported then IpcSocket nm sockType proto baseAddr handler appInstance w
      else (Inl TypeError, w))"

text \<open>
  The fields of a \<^verbatim>\<open>PluginClient\<close>.  \<open>deferredReply\<close> holds the id of the \<^verbatim>\<open>Deferred\<close>
  (\<open>None\<close> for \<^verbatim>\<open>undefined\<close> and \<^verbatim>\<open>null\<close>); the two sockets are owned by the client and
  held by value.
\<close>

record plugin_client =
  pluginId :: string
  ipcProtocol :: string
  appInstance :: string
  verbose :: bool
  deferredReply :: "nat option"
  gatewayVersion :: jsval
  userProfile :: jsval
  addonManager :: "proxy option"
  pluginIpcBaseAddr :: jsval
  pluginIpcSocket :: "ipc_socket option"
  managerIpcSocket :: "ipc_socket option"

definition PluginClient :: "string \<Rightarrow> string \<Rightarrow> string \<Rightarrow> bool \<Rightarrow> plugin_client" where
  "PluginClient pid proto app verb =
     \<lparr> pluginId = pid, ipcProtocol = proto, appInstance = app, verbose = verb,
       deferredReply = None, gatewayVersion = JUndefined, userProfile = JUndefined,
       addonManager = None, pluginIpcBaseAddr = JUndefined,
       pluginIpcSocket = None, managerIpcSocket = None \<rparr>"

text \<open>
  \<^verbatim>\<open>onManagerMsg\<close>.  A member read or \<^verbatim>\<open>new IpcSocket(...)\<close> may throw; the result is then
  \<open>Inl\<close> with the client and the world as they are at that statement.  The strict
  comparison with the message type constant, a string, is equality of values.
\<close>

definition onManagerMsg ::
  "plugin_client \<Rightarrow> jsval \<Rightarrow> world \<Rightarrow> (thrown + unit) \<times> plugin_client \<times> world" where
  "onManagerMsg c msg w0 =
     (let w = (if verbose c
               then emit (ConsoleLog [JStr ''PluginClient: rcvd ManagerMsg:'', msg]) w0 else w0)
      in case deferredReply c of
           None \<Rightarrow> (Inr (), c, emit (ConsoleError [JStr ''No deferredReply setup'']) w)
         | Some deferred \<Rightarrow>
            (case get_member msg ''messageType'' of
               Inl e \<Rightarrow> (Inl e, c, w)
             | Inr mt \<Rightarrow>
                if mt = PLUGIN_REGISTER_RESPONSE then
                  (case get_member2 msg ''data'' ''gatewayVersion'' of
                     Inl e \<Rightarrow> (Inl e, c, w)
                   | Inr gv \<Rightarrow>
                  (case get_member2 msg ''data'' ''userProfile'' of
                     Inl e \<Rightarrow> (Inl e, c \<lparr> gatewayVersion := gv \<rparr>, w)
                   | Inr up \<Rightarrow>
                  (let manager = AddonManagerProxy (pluginId c);
                       c1 = c \<lparr> gatewayVersion := gv, userProfile := up,
                                addonManager := Some manager \<rparr>
                   in case get_member2 msg ''data'' ''ipcBaseAddr'' of
                        Inl e \<Rightarrow> (Inl e, c1, w)
                      | Inr addr \<Rightarrow>
                  (let c2 = c1 \<lparr> pluginIpcBaseAddr := addr \<rparr>
                   in case new_IpcSocket ''PluginClient'' ''pair'' (ipcProtocol c2) addr
                             (ProxyOnMsg manager) (appInstance c2) w of
                        (Inl e, w1) \<Rightarrow> (Inl e, c2, w1)
                      | (Inr sock, w1) \<Rightarrow>
                  (let (sock', w2) = connect sock w1;
                       c3 = c2 \<lparr> pluginIpcSocket := Some sock' \<rparr>;
                       w3 = (if verbose c3
                             then emit (ConsoleLog [JStr ''PluginClient: registered with PluginServer:'',
                                                    JStr (ipcAddr sock')]) w2
                             else w2);
                       c4 = c3 \<lparr> deferredReply := None \<rparr>
                   in (Inr (), c4, resolve deferred manager w3))))))
                else
                  (Inr (), c,
                   emit (ConsoleError [msg])
                     (emit (ConsoleError [JStr ''Unexpected registration reply for gateway'']) w))))"

text \<open>
  \<^verbatim>\<open>register\<close>.  The value returned is the id of the promise, \<open>None\<close> for the
  \<^verbatim>\<open>undefined\<close> of the early return.
\<close>

definition register ::
  "plugin_client \<Rightarrow> world \<Rightarrow> (thrown + nat option) \<times> plugin_client \<times> world" where
  "register c w =
     (if deferredReply c \<noteq> None then
        (Inr None, c, emit (ConsoleError [JStr ''Already waiting for registration reply'']) w)
      else
        (let (d, w1) = Deferred w;
             c1 = c \<lparr> deferredReply := Some d \<rparr>
         in case new_IpcSocket ''PluginClientServer'' ''req'' (ipcProtocol c1)
                   (JStr ''gateway.addonManager'') (OnManagerMsg (pluginId c1)) (appInstance c1) w1 of
              (Inl e, w2) \<Rightarrow> (Inl e, c1, w2)
            | (Inr sock, w2) \<Rightarrow>
                (let (sock', w3) = connect sock w2;
                     c2 = c1 \<lparr> managerIpcSocket := Some sock' \<rparr>;
                     w4 = (if verbose c2
                           then emit (ConsoleLog [JStr ''Connected to server:'', JStr (ipcAddr sock'),
                                                  JStr ''registering...'']) w3
                           else w3);
                     w5 = sendJson sock'
                            (JObj [(''messageType'', PLUGIN_REGISTER_REQUEST),
                                   (''data'', JObj [(''pluginId'', JStr (pluginId c2))])]) w4
                 in (Inr (Some d), c2, w5))))"

text \<open>\<^verbatim>\<open>unload\<close>: closes the sockets that exist and emits \<^verbatim>\<open>unloaded\<close>.\<close>

definition unload :: "plugin_client \<Rightarrow> world \<Rightarrow> plugin_client \<times> world" where
  "unload c w =
     (let (c1, w1) = (case pluginIpcSocket c of
                        Some s \<Rightarrow> (let (s', w') = close s w in (c \<lparr> pluginIpcSocket := Some s' \<rparr>, w'))
                      | None \<Rightarrow> (c, w));
          (c2, w2) = (case managerIpcSocket c1 of
                        Some s \<Rightarrow> (let (s', w') = close s w1 in (c1 \<lparr> managerIpcSocket := Some s' \<rparr>, w'))
                      | None \<Rightarrow> (c1, w1))
      in (c2, emit (Emit ''unloaded'' (JObj [])) w2))"

text \<open>
  The calls that reach a client over its lifetime, in any order: \<^verbatim>\<open>register()\<close>, a message
  handed to \<^verbatim>\<open>onManagerMsg\<close>, \<^verbatim>\<open>unload()\<close>.  A call that throws leaves the client and the
  world as they are at the throw.
\<close>

datatype call = Register | ManagerMsg jsval | Unload

fun step :: "plugin_client \<times> world \<Rightarrow> call \<Rightarrow> plugin_client \<times> world" where
  "step (c, w) Register = snd (register c w)"
| "step (c, w) (ManagerMsg msg) = snd (onManagerMsg c msg w)"
| "step (c, w) Unload = unload c w"

definition run :: "plugin_client \<times> world \<Rightarrow> call list \<Rightarrow> plugin_client \<times> world" where
  "run cw calls = foldl step cw calls"

text \<open>The world at process start: the module variables as their initialisers set them.\<close>

definition initial_world :: "string set \<Rightarrow> world" where
  "initial_world fs =
     \<lparr> boundAddrs = {}, connectedAddrs = {}, socketIdCounter = 0, deferredId = 0,
       promises = [], files = fs, endpoints = [], trace = [] \<rparr>"

text \<open>The promises that are pending, and the calls of a promise's resolve function so far.\<close>

definition pending :: "world \<Rightarrow> nat list" where
  "pending w = map fst (filter (\<lambda>e. snd e = Pending) (promises w))"

fun resolve_calls :: "nat \<Rightarrow> effect list \<Rightarrow> nat" where
  "resolve_calls i [] = 0"
| "resolve_calls i (ResolveFunc j arg # es) = (if i = j then 1 else 0) + resolve_calls i es"
| "resolve_calls i (_ # es) = resolve_calls i es"

section \<open>Sequences of socket calls\<close>

text \<open>
  Calls on one socket, one after the other.  A \<^verbatim>\<open>bind()\<close> that throws leaves the socket
  and the world as they are at the throw, and the caller goes on.
\<close>

datatype socket_call = Bind | Connect | Close

fun socket_step :: "ipc_socket \<times> world \<Rightarrow> socket_call \<Rightarrow> ipc_socket \<times> world" where
  "socket_step (s, w) Bind = snd (bind s w)"
| "socket_step (s, w) Connect = connect s w"
| "socket_step (s, w) Close = close s w"

definition socket_run :: "ipc_socket \<times> world \<Rightarrow> socket_call list \<Rightarrow> ipc_socket \<times> world" where
  "socket_run sw calls = foldl socket_step sw calls"

section \<open>Concrete inputs\<close>

text \<open>The description \<^verbatim>\<open>{}\<close>, and a device \<^verbatim>\<open>d1\<close> whose only property is \<^verbatim>\<open>on\<close>.\<close>

definition empty_description :: property_description where
  "empty_description =
     \<lparr> d_visible = None, d_title = None, d_label = None, d_type = None, d_atType = None,
       d_unit = None, d_description = None, d_minimum = None, d_min = None,
       d_maximum = None, d_max = None, d_enum = None, d_readOnly = None,
       d_multipleOf = None, d_links = None \<rparr>"

definition device_with :: "property \<Rightarrow> device_obj" where
  "device_with p = \<lparr> dev_id = ''d1'', dev_title = [], properties = [''on'' \<mapsto> p] \<rparr>"

text \<open>
  Modelled from the spec: the envelope check of the message schema (the schema directory is
  not among the sources): \<^verbatim>\<open>messageType\<close> present and a string, \<^verbatim>\<open>data\<close> present.
\<close>

definition validate_envelope :: "jsval \<Rightarrow> bool" where
  "validate_envelope data =
     (case data of
        JObj kvs \<Rightarrow>
          (case map_of kvs ''messageType'' of
             Some (JStr t) \<Rightarrow> map_of kvs ''data'' \<noteq> None
           | _ \<Rightarrow> False)
      | _ \<Rightarrow> False)"

text \<open>
  \<^verbatim>\<open>JSON.parse\<close> on the two frames of the examples below: \<^verbatim>\<open>{}\<close>, which parses to the
  empty object, and \<^verbatim>\<open>{not json\<close>, on which it throws a \<^verbatim>\<open>SyntaxError\<close>.  It is applied
  to no other frame.
\<close>

definition parse_example :: "string \<Rightarrow> jsval + jsval" where
  "parse_example buf =
     (if buf = ''{}'' then Inr (JObj [])
      else Inl (JStr ''SyntaxError: Unexpected token n in JSON at position 1''))"

text \<open>The session socket of plugin \<^verbatim>\<open>acme\<close>, as the constructor returns it.\<close>

definition example_socket :: ipc_socket where
  "example_socket =
     \<lparr> sockName = ''PluginClient'', socketType = ''pair'', protocol = ''inproc'',
       onMsg = ProxyOnMsg (AddonManagerProxy ''acme''), socketId = 1,
       ipcFile = ''app-acme.session'', ipcAddr = ''inproc://app-acme.session'',
       logPrefix = ''IpcSocket  1: PluginClient      :'', connected = False, bound = False \<rparr>"

text \<open>
  Two pair sockets at one \<^verbatim>\<open>ipc\<close> address, as the constructor returns the first and the
  second socket of a process.
\<close>

definition first_ipc_socket :: ipc_socket where
  "first_ipc_socket =
     \<lparr> sockName = ''PluginServer'', socketType = ''pair'', protocol = ''ipc'',
       onMsg = ProxyOnMsg (AddonManagerProxy ''acme''), socketId = 1,
       ipcFile = ''/tmp/acme.session'', ipcAddr = ''ipc:///tmp/acme.session'',
       logPrefix = ''IpcSocket  1: PluginServer      :'', connected = False, bound = False \<rparr>"

definition second_ipc_socket :: ipc_socket where
  "second_ipc_socket =
     \<lparr> sockName = ''PluginServer'', socketType = ''pair'', protocol = ''ipc'',
       onMsg = ProxyOnMsg (AddonManagerProxy ''acme''), socketId = 2,
       ipcFile = ''/tmp/acme.session'', ipcAddr = ''ipc:///tmp/acme.session'',
       logPrefix = ''IpcSocket  2: PluginServer      :'', connected = False, bound = False \<rparr>"

text \<open>
  The client of plugin \<^verbatim>\<open>acme\<close> at process start and after its first \<^verbatim>\<open>register()\<close>,
  which leaves \<open>deferredReply\<close> set; the registration response of the spec's scenario A;
  a message of another type.
\<close>

definition acme_start :: "plugin_client \<times> world" where
  "acme_start = (PluginClient ''acme'' ''inproc'' ''app'' False, initial_world {})"

definition acme_registering :: "plugin_client \<times> world" where
  "acme_registering = run acme_start [Register]"

definition response_data_A :: jsval where
  "response_data_A =
     JObj [(''gatewayVersion'', JStr ''1.0''), (''userProfile'', JObj []),
           (''ipcBaseAddr'', JStr ''acme.session'')]"

definition response_A :: jsval where
  "response_A = JObj [(''messageType'', JStr ''PLUGIN_REGISTER_RESPONSE''), (''data'', response_data_A)]"

definition unexpected_msg :: jsval where
  "unexpected_msg = JObj [(''messageType'', JStr ''DEVICE_ADDED''), (''data'', JObj [])]"

section \<open>The single-flight invariant\<close>

text \<open>
  What a call leaves alone, and the invariant that every call preserves: the pending
  promises are exactly the one \<open>deferredReply\<close> holds, ids are never reused, and no
  promise has had its resolve function called twice.
\<close>

definition unchanged :: "plugin_client \<times> world \<Rightarrow> plugin_client \<times> world \<Rightarrow> bool" where
  "unchanged cw cw' =
     (deferredReply (fst cw') = deferredReply (fst cw)
      \<and> promises (snd cw') = promises (snd cw)
      \<and> deferredId (snd cw') = deferredId (snd cw)
      \<and> (\<forall>j. resolve_calls j (trace (snd cw')) = resolve_calls j (trace (snd cw))))"

definition single_flight :: "plugin_client \<times> world \<Rightarrow> bool" where
  "single_flight cw =
     (pending (snd cw) = (case deferredReply (fst cw) of None \<Rightarrow> [] | Some i \<Rightarrow> [i])
      \<and> (\<forall>e \<in> set (promises (snd cw)). fst e \<le> deferredId (snd cw))
      \<and> (\<forall>j. resolve_calls j (trace (snd cw)) \<le> 1)
      \<and> (\<forall>j \<in> set (pending (snd cw)). resolve_calls j (trace (snd cw)) = 0)
      \<and> (\<forall>j. deferredId (snd cw) < j \<longrightarrow> resolve_calls j (trace (snd cw)) = 0))"

section \<open>Properties of Property and Device\<close>

lemma visible_Property [simp]:
  "visible (Property dev nm d) = (case d_visible d of Some b \<Rightarrow> b | None \<Rightarrow> True)"
  by (simp add: Property_def assign_def)

lemma visible_LegacyProperty [simp]: "visible (LegacyProperty dev nm d) = True"
  by (simp add: LegacyProperty_def truthy_bool_def split: option.splits)

lemma Property_fields [simp]:
  "readOnly (Property dev nm d) = d_readOnly d"
  "minimum (Property dev nm d) = or_num (d_minimum d) (d_min d)"
  "maximum (Property dev nm d) = or_num (d_maximum d) (d_max d)"
  "multipleOf (Property dev nm d) = d_multipleOf d"
  "penum (Property dev nm d) = d_enum d"
  "ptype (Property dev nm d) = d_type d"
  "pvalue (Property dev nm d) = JUndefined"
  "name (Property dev nm d) = nm"
  "device (Property dev nm d) = dev"
  by (simp_all add: Property_def assign_def fromLegacyProperties_def)

text \<open>
  Claim C10.  The two \<^verbatim>\<open>Property\<close> classes disagree on visibility.  The legacy constructor
  makes every property visible, whatever the description says, because it computes
  \<^verbatim>\<open>propertyDescr.visible || true\<close>; the constructor of \<^verbatim>\<open>Property<T>\<close> keeps an explicit
  \<^verbatim>\<open>visible: false\<close>.  So there is a description on which \<^verbatim>\<open>isVisible()\<close> differs.
\<close>

theorem visibility_disagrees:
  "isVisible (LegacyProperty dev nm d) = True
   \<and> (d_visible d = Some False \<longrightarrow>
        isVisible (Property dev nm d) = False
        \<and> isVisible (LegacyProperty dev nm d) \<noteq> isVisible (Property dev nm d))
   \<and> (\<exists>d'. isVisible (LegacyProperty dev nm d') \<noteq> isVisible (Property dev nm d'))"
proof -
  have ex: "isVisible (LegacyProperty dev nm (empty_description \<lparr> d_visible := Some False \<rparr>))
        \<noteq> isVisible (Property dev nm (empty_description \<lparr> d_visible := Some False \<rparr>))"
    by (simp add: isVisible_def)
  have legacy: "isVisible (LegacyProperty dev nm d) = True"
    by (simp add: isVisible_def)
  have generic: "d_visible d = Some False \<longrightarrow>
        isVisible (Property dev nm d) = False
        \<and> isVisible (LegacyProperty dev nm d) \<noteq> isVisible (Property dev nm d)"
    by (simp add: isVisible_def)
  from ex legacy generic show ?thesis by blast
qed

text \<open>The description \<^verbatim>\<open>{ visible: false }\<close>: visible in the legacy class, hidden in the other.\<close>

theorem visibility_disagrees_witness:
  "d_visible (empty_description \<lparr> d_visible := Some False \<rparr>) = Some False
   \<and> isVisible (LegacyProperty ''d1'' ''on'' (empty_description \<lparr> d_visible := Some False \<rparr>)) = True
   \<and> isVisible (Property ''d1'' ''on'' (empty_description \<lparr> d_visible := Some False \<rparr>)) = False"
  using visibility_disagrees [of "''d1''" "''on''" "empty_description \<lparr> d_visible := Some False \<rparr>"]
  by simp

text \<open>
  Claim C9.  When \<^verbatim>\<open>setValue(value)\<close> rejects, whatever the reason, the property is as it
  was (in particular its cached value) and nothing was sent: no property-changed
  notification, no log line.
\<close>

theorem setValue_reject_unchanged:
  "setValue sn p v = (Inl e, p', effs) \<Longrightarrow> p' = p \<and> pvalue p' = pvalue p \<and> effs = []"
  by (auto simp: setValue_def split: if_splits prod.splits)

text \<open>A read-only property \<^verbatim>\<open>on\<close> rejects \<^verbatim>\<open>true\<close> and keeps its value.\<close>

theorem setValue_reject_unchanged_witness:
  "setValue (\<lambda>s. None) (Property ''d1'' ''on'' (empty_description \<lparr> d_readOnly := Some True \<rparr>)) (JBool True)
     = (Inl ''Read-only property'', Property ''d1'' ''on'' (empty_description \<lparr> d_readOnly := Some True \<rparr>), [])"
  using setValue_reject_unchanged [of "\<lambda>s. None"
      "Property ''d1'' ''on'' (empty_description \<lparr> d_readOnly := Some True \<rparr>)" "JBool True"
      "''Read-only property''" "Property ''d1'' ''on'' (empty_description \<lparr> d_readOnly := Some True \<rparr>)" "[]"]
  by (simp add: setValue_def truthy_bool_def)

lemma strict_neq_true: "strict_neq old (JBool True) = (old \<noteq> JBool True)"
  by (cases old) simp_all

lemma js_rem_true:
  assumes k: "k \<noteq> 0"
  shows "(js_rem sn (JBool True) k = Some 0) = (\<bar>k\<bar> = 1)"
proof -
  have "(1 mod \<bar>k\<bar> = 0) = (\<bar>k\<bar> = 1)"
  proof
    assume "1 mod \<bar>k\<bar> = 0"
    then have "\<bar>k\<bar> dvd 1" by (simp add: dvd_eq_mod_eq_0)
    then show "\<bar>k\<bar> = 1" by simp
  next
    assume "\<bar>k\<bar> = 1"
    then show "1 mod \<bar>k\<bar> = 0" by simp
  qed
  with k show ?thesis by (simp add: js_rem_def)
qed

lemma setValue_true:
  assumes "\<not> truthy_bool (readOnly p)"
    and "\<not> (truthy_num (minimum p) \<and> 1 < the (minimum p))"
    and "\<not> (truthy_num (maximum p) \<and> the (maximum p) < 1)"
    and "\<not> (truthy_num (multipleOf p) \<and> \<bar>the (multipleOf p)\<bar> \<noteq> 1)"
    and "penum p = None \<or> the (penum p) = []"
  shows "setValue sn p (JBool True) =
     (Inr (JBool True), p \<lparr> pvalue := JBool True \<rparr>,
      if pvalue p = JBool True then []
      else [SendPropertyChangedNotification (p \<lparr> pvalue := JBool True \<rparr>),
            ConsoleLog [JStr ''setCachedValueAndNotify for property'', JStr (name p),
                        JStr ''from'', pvalue p, JStr ''to'', JBool True,
                        JStr ''for'', JStr (device p)]])"
proof -
  have m: "\<not> (truthy_num (multipleOf p) \<and> js_rem sn (JBool True) (the (multipleOf p)) \<noteq> Some 0)"
    using assms(4) by (cases "multipleOf p") (auto simp: truthy_num_def js_rem_true)
  have c: "setCachedValueAndNotify p (JBool True) =
     (pvalue p \<noteq> JBool True, p \<lparr> pvalue := JBool True \<rparr>,
      if pvalue p = JBool True then []
      else [SendPropertyChangedNotification (p \<lparr> pvalue := JBool True \<rparr>),
            ConsoleLog [JStr ''setCachedValueAndNotify for property'', JStr (name p),
                        JStr ''from'', pvalue p, JStr ''to'', JBool True,
                        JStr ''for'', JStr (device p)]])"
    by (simp add: setCachedValueAndNotify_def setCachedValue_def strict_neq_true
        notifyPropertyChanged_def Let_def)
  show ?thesis
    using assms(1,2,3,5) m
    by (auto simp: setValue_def c js_lt_def js_gt_def)
qed

text \<open>
  Claim C4, as amended.  For a device with a property \<^verbatim>\<open>on\<close> that is not read-only and
  whose constraints admit \<^verbatim>\<open>true\<close> (which counts as the number 1: a minimum that is 0 or
  at most 1, a maximum that is 0 or at least 1, a \<^verbatim>\<open>multipleOf\<close> that is 0, 1 or -1, no
  non-empty enum), \<^verbatim>\<open>device.setProperty("on", true)\<close> resolves to \<^verbatim>\<open>true\<close> and the cached
  value becomes \<^verbatim>\<open>true\<close>.  The property is handed to the manager's
  \<^verbatim>\<open>sendPropertyChangedNotification\<close> exactly when the cached value was not \<^verbatim>\<open>true\<close>
  already.
\<close>

theorem setProperty_on_true:
  assumes "findProperty d ''on'' = Some p"
    and "\<not> truthy_bool (readOnly p)"
    and "\<not> (truthy_num (minimum p) \<and> 1 < the (minimum p))"
    and "\<not> (truthy_num (maximum p) \<and> the (maximum p) < 1)"
    and "\<not> (truthy_num (multipleOf p) \<and> \<bar>the (multipleOf p)\<bar> \<noteq> 1)"
    and "penum p = None \<or> the (penum p) = []"
  shows "setProperty sn d ''on'' (JBool True) =
     (Inr (JBool True),
      d \<lparr> properties := (properties d)(''on'' \<mapsto> p \<lparr> pvalue := JBool True \<rparr>) \<rparr>,
      if pvalue p = JBool True then []
      else [SendPropertyChangedNotification (p \<lparr> pvalue := JBool True \<rparr>),
            ConsoleLog [JStr ''setCachedValueAndNotify for property'', JStr (name p),
                        JStr ''from'', pvalue p, JStr ''to'', JBool True,
                        JStr ''for'', JStr (device p)]])"
  using assms(1) by (simp add: setProperty_def setValue_true [OF assms(2-6)])

text \<open>Scenario B of the spec: a boolean property \<^verbatim>\<open>on\<close> of device \<^verbatim>\<open>d1\<close>, not yet set.\<close>

theorem setProperty_on_true_witness:
  "setProperty (\<lambda>s. None) (device_with (Property ''d1'' ''on'' (empty_description \<lparr> d_type := Some ''boolean'' \<rparr>)))
      ''on'' (JBool True) =
     (Inr (JBool True),
      device_with ((Property ''d1'' ''on'' (empty_description \<lparr> d_type := Some ''boolean'' \<rparr>)) \<lparr> pvalue := JBool True \<rparr>),
      [SendPropertyChangedNotification
         ((Property ''d1'' ''on'' (empty_description \<lparr> d_type := Some ''boolean'' \<rparr>)) \<lparr> pvalue := JBool True \<rparr>),
       ConsoleLog [JStr ''setCachedValueAndNotify for property'', JStr ''on'',
                   JStr ''from'', JUndefined, JStr ''to'', JBool True, JStr ''for'', JStr ''d1'']])"
  using setProperty_on_true [of "device_with (Property ''d1'' ''on'' (empty_description \<lparr> d_type := Some ''boolean'' \<rparr>))"
       "Property ''d1'' ''on'' (empty_description \<lparr> d_type := Some ''boolean'' \<rparr>)" "\<lambda>s. None"]
  by (simp add: device_with_def findProperty_def empty_description_def truthy_bool_def
      truthy_num_def or_num_def)

text \<open>
  Where the claim as written fails: a read-only property \<^verbatim>\<open>on\<close> rejects \<^verbatim>\<open>true\<close>, keeps
  its value (\<^verbatim>\<open>undefined\<close>) and sends nothing; and a property \<^verbatim>\<open>on\<close> whose cached value is
  \<^verbatim>\<open>true\<close> already resolves without a notification.
\<close>

theorem setProperty_on_true_counterexample:
  "setProperty (\<lambda>s. None) (device_with (Property ''d1'' ''on'' (empty_description \<lparr> d_readOnly := Some True \<rparr>)))
      ''on'' (JBool True) =
     (Inl ''Read-only property'',
      device_with (Property ''d1'' ''on'' (empty_description \<lparr> d_readOnly := Some True \<rparr>)), [])
   \<and> pvalue (Property ''d1'' ''on'' (empty_description \<lparr> d_readOnly := Some True \<rparr>)) \<noteq> JBool True
   \<and> setProperty (\<lambda>s. None)
        (device_with ((Property ''d1'' ''on'' empty_description) \<lparr> pvalue := JBool True \<rparr>))
        ''on'' (JBool True) =
     (Inr (JBool True),
      device_with ((Property ''d1'' ''on'' empty_description) \<lparr> pvalue := JBool True \<rparr>), [])"
  by (simp add: setProperty_def device_with_def findProperty_def setValue_def truthy_bool_def
      truthy_num_def or_num_def empty_description_def setCachedValueAndNotify_def
      setCachedValue_def js_lt_def js_gt_def)

section \<open>Properties of IpcSocket\<close>

lemma emit_fields [simp]:
  "promises (emit e w) = promises w"
  "deferredId (emit e w) = deferredId w"
  "boundAddrs (emit e w) = boundAddrs w"
  "connectedAddrs (emit e w) = connectedAddrs w"
  "socketIdCounter (emit e w) = socketIdCounter w"
  "files (emit e w) = files w"
  "endpoints (emit e w) = endpoints w"
  "trace (emit e w) = trace w @ [e]"
  by (simp_all add: emit_def)

lemma error_fields [simp]:
  "promises (error s args w) = promises w"
  "deferredId (error s args w) = deferredId w"
  "boundAddrs (error s args w) = boundAddrs w"
  "connectedAddrs (error s args w) = connectedAddrs w"
  "socketIdCounter (error s args w) = socketIdCounter w"
  "files (error s args w) = files w"
  "endpoints (error s args w) = endpoints w"
  "trace (error s args w) = trace w @ [ConsoleError (JStr (logPrefix s) # args)]"
  by (simp_all add: error_def)

lemma nn_bind_fields [simp]:
  "fst (nn_bind s w) =
     (if address_in_use s w then Some (Thrown (JStr ''Address already in use'')) else None)"
  "promises (snd (nn_bind s w)) = promises w"
  "deferredId (snd (nn_bind s w)) = deferredId w"
  "boundAddrs (snd (nn_bind s w)) = boundAddrs w"
  "connectedAddrs (snd (nn_bind s w)) = connectedAddrs w"
  "socketIdCounter (snd (nn_bind s w)) = socketIdCounter w"
  "trace (snd (nn_bind s w)) = trace w @ [NanoBind (socketId s) (ipcAddr s)]"
  by (simp_all add: nn_bind_def Let_def)

lemma nn_close_fields [simp]:
  "promises (nn_close s w) = promises w"
  "deferredId (nn_close s w) = deferredId w"
  "boundAddrs (nn_close s w) = boundAddrs w"
  "connectedAddrs (nn_close s w) = connectedAddrs w"
  "socketIdCounter (nn_close s w) = socketIdCounter w"
  "files (nn_close s w) = files w"
  "trace (nn_close s w) = trace w @ [NanoClose (socketId s)]"
  by (simp_all add: nn_close_def)

lemma bind_fields:
  "fst (snd (bind s w)) = s \<lparr> bound := True \<rparr>"
  "boundAddrs (snd (snd (bind s w))) =
     (if socketType s = ''pair'' then insert (ipcAddr s) (boundAddrs w) else boundAddrs w)"
  "connectedAddrs (snd (snd (bind s w))) = connectedAddrs w"
  "promises (snd (snd (bind s w))) = promises w"
  "deferredId (snd (snd (bind s w))) = deferredId w"
  by (simp_all add: bind_def Let_def)

text \<open>The example socket is the one the constructor returns in a fresh process.\<close>

lemma example_socket_constructed:
  "IpcSocket ''PluginClient'' ''pair'' ''inproc'' (JStr ''acme.session'')
     (ProxyOnMsg (AddonManagerProxy ''acme'')) ''app'' (initial_world {})
   = (Inr example_socket,
      (initial_world {}) \<lparr> socketIdCounter := 1, trace := [NanoSocket 1 ''pair''] \<rparr>)"
  by code_simp

text \<open>
  Claim C5.  A frame that \<^verbatim>\<open>JSON.parse\<close> rejects is logged (three error lines: the
  failure, the text received, the error) and \<^verbatim>\<open>onData\<close> returns; the handler is not called
  for it.  \<^verbatim>\<open>onData\<close> has no other effect, and no path of it throws there.
\<close>

theorem onData_malformed:
  assumes "parse buf = Inl err"
  shows "onData parse validate s buf w =
     w \<lparr> trace := trace w @
           [ConsoleError [JStr (logPrefix s), JStr ''Error parsing message as JSON''],
            ConsoleError [JStr (logPrefix s), JStr (''Rcvd: \"'' @ buf @ ''\"'')],
            ConsoleError [JStr (logPrefix s), err]] \<rparr>
     \<and> CallOnMsg h d \<notin> set (trace (onData parse validate s buf w)) - set (trace w)"
  using assms by (auto simp: onData_def error_def emit_def)

text \<open>Scenario D of the spec: the frame \<^verbatim>\<open>{not json\<close> on the session socket.\<close>

theorem onData_malformed_witness:
  "parse_example ''{not json'' = Inl (JStr ''SyntaxError: Unexpected token n in JSON at position 1'')
   \<and> trace (onData parse_example validate_envelope example_socket ''{not json'' (initial_world {})) =
       [ConsoleError [JStr ''IpcSocket  1: PluginClient      :'', JStr ''Error parsing message as JSON''],
        ConsoleError [JStr ''IpcSocket  1: PluginClient      :'', JStr ''Rcvd: \"{not json\"''],
        ConsoleError [JStr ''IpcSocket  1: PluginClient      :'',
                      JStr ''SyntaxError: Unexpected token n in JSON at position 1'']]"
  using onData_malformed [of parse_example "''{not json''"
      "JStr ''SyntaxError: Unexpected token n in JSON at position 1''"
      validate_envelope example_socket "initial_world {}"]
  by (simp add: parse_example_def example_socket_def initial_world_def)

text \<open>
  Claim C1 does not hold of the code.  What \<^verbatim>\<open>onData\<close> does with a frame that parses and
  fails validation: it logs \<^verbatim>\<open>Invalid message received:\<close> and then calls the handler with
  the message all the same; the branch that logs has no \<^verbatim>\<open>return\<close>.
\<close>

theorem onData_forwards_invalid:
  assumes "parse buf = Inr data" and "\<not> validate data"
  shows "onData parse validate s buf w =
     w \<lparr> trace := trace w @
           [ConsoleError [JStr ''Invalid message received:'', data],
            CallOnMsg (onMsg s) data] \<rparr>"
  using assms by (simp add: onData_def emit_def)

text \<open>
  The frame \<^verbatim>\<open>{}\<close>: it has no \<^verbatim>\<open>messageType\<close>, so it fails the envelope check, and the
  session socket's handler is called with it.
\<close>

theorem onData_forwards_invalid_witness:
  "parse_example ''{}'' = Inr (JObj [])
   \<and> validate_envelope (JObj []) = False
   \<and> onData parse_example validate_envelope example_socket ''{}'' (initial_world {}) =
     (initial_world {})
       \<lparr> trace := [ConsoleError [JStr ''Invalid message received:'', JObj []],
                   CallOnMsg (ProxyOnMsg (AddonManagerProxy ''acme'')) (JObj [])] \<rparr>"
  using onData_forwards_invalid [of parse_example "''{}''" "JObj []" validate_envelope
      example_socket "initial_world {}"]
  by (simp add: parse_example_def validate_envelope_def example_socket_def initial_world_def)

text \<open>
  Claim C7, as amended.  \<^verbatim>\<open>bind()\<close> on a pair socket whose address is already in
  \<^verbatim>\<open>boundAddrs\<close>: the conflict is logged, the socket is marked bound, the address stays
  recorded, a stale ipc file is removed, and the transport's \<^verbatim>\<open>bind\<close> is called last.
  \<^verbatim>\<open>bind()\<close> has no \<^verbatim>\<open>throw\<close> of its own and catches nothing: it returns when the
  transport's \<^verbatim>\<open>bind\<close> returns, which it does for an \<^verbatim>\<open>ipc\<close> socket, and it throws what the
  transport throws when an endpoint still holds the address of a socket of another
  protocol.
\<close>

theorem bind_conflict:
  assumes "socketType s = ''pair''" and "ipcAddr s \<in> boundAddrs w"
  shows "fst (snd (bind s w)) = s \<lparr> bound := True \<rparr>
     \<and> boundAddrs (snd (snd (bind s w))) = boundAddrs w
     \<and> ipcAddr s \<in> boundAddrs (snd (snd (bind s w)))
     \<and> trace (snd (snd (bind s w))) = trace w
            @ (if bound s then [ConsoleError [JStr (logPrefix s), JStr ''socket already bound:'', JStr (ipcAddr s)]] else [])
            @ (if connected s then [ConsoleError [JStr (logPrefix s), JStr ''socket already connected:'', JStr (ipcAddr s)]] else [])
            @ [ConsoleError [JStr (logPrefix s), JStr ''address already bound:'', JStr (ipcAddr s)]]
            @ (if protocol s = ''ipc'' \<and> ipcFile s \<in> files w then [FsUnlink (ipcFile s)] else [])
            @ [NanoBind (socketId s) (ipcAddr s)]
     \<and> fst (bind s w) =
          (if protocol s \<noteq> ''ipc'' \<and> ipcAddr s \<in> set (map snd (endpoints w))
           then Inl (Thrown (JStr ''Address already in use''))
           else Inr ())"
proof -
  have sock: "fst (snd (bind s w)) = s \<lparr> bound := True \<rparr>"
    by (simp add: bind_fields)
  have addrs: "boundAddrs (snd (snd (bind s w))) = boundAddrs w"
    using assms by (simp add: bind_fields insert_absorb)
  have tr: "trace (snd (snd (bind s w))) = trace w
            @ (if bound s then [ConsoleError [JStr (logPrefix s), JStr ''socket already bound:'', JStr (ipcAddr s)]] else [])
            @ (if connected s then [ConsoleError [JStr (logPrefix s), JStr ''socket already connected:'', JStr (ipcAddr s)]] else [])
            @ [ConsoleError [JStr (logPrefix s), JStr ''address already bound:'', JStr (ipcAddr s)]]
            @ (if protocol s = ''ipc'' \<and> ipcFile s \<in> files w then [FsUnlink (ipcFile s)] else [])
            @ [NanoBind (socketId s) (ipcAddr s)]"
    using assms by (simp add: bind_def Let_def)
  have out: "fst (bind s w) =
          (if protocol s \<noteq> ''ipc'' \<and> ipcAddr s \<in> set (map snd (endpoints w))
           then Inl (Thrown (JStr ''Address already in use''))
           else Inr ())"
    using assms
    by (cases "bound s"; cases "connected s"; cases "protocol s = ''ipc''";
        cases "ipcFile s \<in> files w";
        simp add: bind_def Let_def address_in_use_def)
  from sock addrs tr out assms(2) show ?thesis by simp
qed

text \<open>
  Two sockets at one \<^verbatim>\<open>ipc\<close> address: the second \<^verbatim>\<open>bind()\<close> logs the conflict, removes the
  first socket's file and returns.
\<close>

theorem bind_conflict_witness:
  "ipcAddr second_ipc_socket \<in> boundAddrs (snd (socket_run (first_ipc_socket, initial_world {}) [Bind]))
   \<and> fst (bind second_ipc_socket (snd (socket_run (first_ipc_socket, initial_world {}) [Bind]))) = Inr ()
   \<and> fst (snd (bind second_ipc_socket (snd (socket_run (first_ipc_socket, initial_world {}) [Bind]))))
       = second_ipc_socket \<lparr> bound := True \<rparr>
   \<and> trace (snd (snd (bind second_ipc_socket (snd (socket_run (first_ipc_socket, initial_world {}) [Bind])))))
       = [NanoBind 1 ''ipc:///tmp/acme.session'',
          ConsoleError [JStr ''IpcSocket  2: PluginServer      :'', JStr ''address already bound:'',
                        JStr ''ipc:///tmp/acme.session''],
          FsUnlink ''/tmp/acme.session'',
          NanoBind 2 ''ipc:///tmp/acme.session'']"
proof -
  have w: "snd (socket_run (first_ipc_socket, initial_world {}) [Bind]) =
     (initial_world {})
       \<lparr> boundAddrs := {''ipc:///tmp/acme.session''}, files := {''/tmp/acme.session''},
         endpoints := [(1, ''ipc:///tmp/acme.session'')],
         trace := [NanoBind 1 ''ipc:///tmp/acme.session''] \<rparr>"
    by (simp add: socket_run_def bind_def nn_bind_def address_in_use_def first_ipc_socket_def
        initial_world_def emit_def Let_def)
  have h1: "socketType second_ipc_socket = ''pair''"
    by (simp add: second_ipc_socket_def)
  have h2: "ipcAddr second_ipc_socket \<in> boundAddrs (snd (socket_run (first_ipc_socket, initial_world {}) [Bind]))"
    by (simp add: w second_ipc_socket_def)
  have f: "\<not> bound second_ipc_socket" "\<not> connected second_ipc_socket"
    "protocol second_ipc_socket = ''ipc''" "ipcFile second_ipc_socket = ''/tmp/acme.session''"
    "ipcAddr second_ipc_socket = ''ipc:///tmp/acme.session''" "socketId second_ipc_socket = 2"
    "logPrefix second_ipc_socket = ''IpcSocket  2: PluginServer      :''"
    by (simp_all add: second_ipc_socket_def)
  have g: "files (snd (socket_run (first_ipc_socket, initial_world {}) [Bind])) = {''/tmp/acme.session''}"
    "trace (snd (socket_run (first_ipc_socket, initial_world {}) [Bind]))
       = [NanoBind 1 ''ipc:///tmp/acme.session'']"
    by (simp_all add: w)
  from bind_conflict [OF h1 h2] have
    "fst (bind second_ipc_socket (snd (socket_run (first_ipc_socket, initial_world {}) [Bind]))) = Inr ()"
    "fst (snd (bind second_ipc_socket (snd (socket_run (first_ipc_socket, initial_world {}) [Bind]))))
       = second_ipc_socket \<lparr> bound := True \<rparr>"
    "trace (snd (snd (bind second_ipc_socket (snd (socket_run (first_ipc_socket, initial_world {}) [Bind])))))
       = [NanoBind 1 ''ipc:///tmp/acme.session'',
          ConsoleError [JStr ''IpcSocket  2: PluginServer      :'', JStr ''address already bound:'',
                        JStr ''ipc:///tmp/acme.session''],
          FsUnlink ''/tmp/acme.session'',
          NanoBind 2 ''ipc:///tmp/acme.session'']"
    by (simp_all add: f g)
  with h2 show ?thesis by blast
qed

text \<open>
  Where the claim as written fails.  Two sockets at one \<^verbatim>\<open>inproc\<close> address: the address is
  in \<^verbatim>\<open>boundAddrs\<close> when the second \<^verbatim>\<open>bind()\<close> is called, and the call throws.
\<close>

theorem bind_conflict_counterexample:
  "''inproc://app-acme.session'' \<in> boundAddrs (snd (socket_run (example_socket, initial_world {}) [Bind]))
   \<and> fst (bind (example_socket \<lparr> socketId := 2 \<rparr>)
             (snd (socket_run (example_socket, initial_world {}) [Bind])))
       = Inl (Thrown (JStr ''Address already in use''))"
  by (simp add: socket_run_def bind_def nn_bind_def address_in_use_def example_socket_def
      initial_world_def emit_def error_def Let_def)

lemma socket_step_unfold:
  "socket_step sw Bind = snd (bind (fst sw) (snd sw))"
  "socket_step sw Connect = connect (fst sw) (snd sw)"
  "socket_step sw Close = close (fst sw) (snd sw)"
  by (cases sw, simp)+

lemma connect_close:
  assumes "socketType s = ''pair''"
  shows "fst (socket_run (s, w) [Connect, Close]) = s \<lparr> connected := False \<rparr>"
    and "connectedAddrs (snd (socket_run (s, w) [Connect, Close])) = connectedAddrs w - {ipcAddr s}"
    and "boundAddrs (snd (socket_run (s, w) [Connect, Close])) = boundAddrs w"
  using assms by (simp_all add: socket_run_def connect_def close_def Let_def)

lemma bind_close:
  assumes "socketType s = ''pair''" and "\<not> connected s"
  shows "fst (socket_run (s, w) [Bind, Close]) = s \<lparr> bound := False \<rparr>"
    and "boundAddrs (snd (socket_run (s, w) [Bind, Close])) = boundAddrs w - {ipcAddr s}"
    and "connectedAddrs (snd (socket_run (s, w) [Bind, Close])) = connectedAddrs w"
  using assms
  by (simp_all add: socket_run_def socket_step_unfold bind_fields close_def Let_def)

text \<open>
  Claim C8, as amended.  For a pair socket: after \<^verbatim>\<open>connect()\<close> then \<^verbatim>\<open>close()\<close> the socket
  is not connected and its address is absent from \<^verbatim>\<open>connectedAddrs\<close>, with \<^verbatim>\<open>boundAddrs\<close>
  as before; for a socket that is not connected, after \<^verbatim>\<open>bind()\<close> then \<^verbatim>\<open>close()\<close> it is
  neither bound nor connected and its address is absent from \<^verbatim>\<open>boundAddrs\<close>, with
  \<^verbatim>\<open>connectedAddrs\<close> as before.  The set is its prior contents without the address: it is
  restored when the address was not in it before the sequence.
\<close>

theorem close_releases:
  assumes "socketType s = ''pair''"
  shows "fst (socket_run (s, w) [Connect, Close]) = s \<lparr> connected := False \<rparr>
     \<and> connectedAddrs (snd (socket_run (s, w) [Connect, Close])) = connectedAddrs w - {ipcAddr s}
     \<and> boundAddrs (snd (socket_run (s, w) [Connect, Close])) = boundAddrs w
     \<and> (\<not> connected s \<longrightarrow>
          fst (socket_run (s, w) [Bind, Close]) = s \<lparr> bound := False \<rparr>
          \<and> boundAddrs (snd (socket_run (s, w) [Bind, Close])) = boundAddrs w - {ipcAddr s}
          \<and> connectedAddrs (snd (socket_run (s, w) [Bind, Close])) = connectedAddrs w)
     \<and> (ipcAddr s \<notin> connectedAddrs w \<longrightarrow>
          connectedAddrs (snd (socket_run (s, w) [Connect, Close])) = connectedAddrs w)
     \<and> (\<not> connected s \<and> ipcAddr s \<notin> boundAddrs w \<longrightarrow>
          boundAddrs (snd (socket_run (s, w) [Bind, Close])) = boundAddrs w)"
  using connect_close [OF assms, of w] bind_close [OF assms, of w] by simp

text \<open>The fresh session socket, in a fresh process: both sequences end where they began.\<close>

theorem close_releases_witness:
  "socket_run (example_socket, initial_world {}) [Bind, Close] =
     (example_socket,
      (initial_world {}) \<lparr> trace := [NanoBind 1 ''inproc://app-acme.session'', NanoClose 1] \<rparr>)
   \<and> socket_run (example_socket, initial_world {}) [Connect, Close] =
     (example_socket,
      (initial_world {}) \<lparr> trace := [NanoConnect 1 ''inproc://app-acme.session'', NanoClose 1] \<rparr>)"
  using close_releases [of example_socket "initial_world {}"]
  by (simp add: example_socket_def initial_world_def socket_run_def bind_def connect_def
      close_def nn_bind_def nn_close_def address_in_use_def emit_def Let_def)

text \<open>
  Where the claim as written fails.  A second socket at an address that a first socket
  has bound: its \<^verbatim>\<open>bind()\<close> (which records the address before the transport is called)
  then \<^verbatim>\<open>close()\<close> leaves \<^verbatim>\<open>boundAddrs\<close> empty, not as it was.
  And a socket that is connected when \<^verbatim>\<open>bind()\<close> is called: \<^verbatim>\<open>close()\<close> takes its first
  branch, so the socket stays bound and its address stays in \<^verbatim>\<open>boundAddrs\<close>.
\<close>

theorem close_releases_counterexample:
  "boundAddrs (snd (socket_run (example_socket, initial_world {}) [Bind]))
      = {''inproc://app-acme.session''}
   \<and> boundAddrs (snd (socket_run (example_socket \<lparr> socketId := 2 \<rparr>,
                                  snd (socket_run (example_socket, initial_world {}) [Bind]))
                       [Bind, Close]))
      = {}
   \<and> ''inproc://app-acme.session''
        \<in> boundAddrs (snd (socket_run (example_socket, initial_world {}) [Connect, Bind, Close]))
   \<and> bound (fst (socket_run (example_socket, initial_world {}) [Connect, Bind, Close]))"
  by (simp add: example_socket_def initial_world_def socket_run_def bind_def connect_def
      close_def nn_bind_def nn_close_def address_in_use_def emit_def error_def Let_def)

section \<open>Properties of PluginClient\<close>

lemma resolve_calls_append:
  "resolve_calls i (xs @ ys) = resolve_calls i xs + resolve_calls i ys"
  by (induction i xs rule: resolve_calls.induct) simp_all

lemma connect_deferreds:
  "promises (snd (connect s w)) = promises w"
  "deferredId (snd (connect s w)) = deferredId w"
  "resolve_calls j (trace (snd (connect s w))) = resolve_calls j (trace w)"
  by (simp_all add: connect_def Let_def resolve_calls_append)

lemma close_deferreds:
  "promises (snd (close s w)) = promises w"
  "deferredId (snd (close s w)) = deferredId w"
  "resolve_calls j (trace (snd (close s w))) = resolve_calls j (trace w)"
  by (simp_all add: close_def Let_def resolve_calls_append split: prod.splits)

lemma IpcSocket_deferreds:
  "promises (snd (IpcSocket nm ty pr ba h app w)) = promises w"
  "deferredId (snd (IpcSocket nm ty pr ba h app w)) = deferredId w"
  "resolve_calls j (trace (snd (IpcSocket nm ty pr ba h app w))) = resolve_calls j (trace w)"
  by (simp_all add: IpcSocket_def Let_def resolve_calls_append)

lemma new_IpcSocket_deferreds:
  "promises (snd (new_IpcSocket nm ty pr ba h app w)) = promises w"
  "deferredId (snd (new_IpcSocket nm ty pr ba h app w)) = deferredId w"
  "resolve_calls j (trace (snd (new_IpcSocket nm ty pr ba h app w))) = resolve_calls j (trace w)"
  by (simp_all add: new_IpcSocket_def IpcSocket_deferreds)

lemma sendJson_deferreds:
  "promises (sendJson s obj w) = promises w"
  "deferredId (sendJson s obj w) = deferredId w"
  "resolve_calls j (trace (sendJson s obj w)) = resolve_calls j (trace w)"
  by (simp_all add: sendJson_def resolve_calls_append)

lemma resolve_deferreds:
  "promises (resolve i m w) = map (settle i (Resolved m)) (promises w)"
  "deferredId (resolve i m w) = deferredId w"
  "resolve_calls j (trace (resolve i m w)) = resolve_calls j (trace w) + (if j = i then 1 else 0)"
  by (simp_all add: resolve_def resolve_calls_append)

lemma Deferred_deferreds:
  "fst (Deferred w) = deferredId w + 1"
  "promises (snd (Deferred w)) = promises w @ [(deferredId w + 1, Pending)]"
  "deferredId (snd (Deferred w)) = deferredId w + 1"
  "resolve_calls j (trace (snd (Deferred w))) = resolve_calls j (trace w)"
  by (simp_all add: Deferred_def Let_def)

lemma onManagerMsg_summary:
  "unchanged (c, w) (snd (onManagerMsg c msg w))
   \<or> (\<exists>i m. deferredReply c = Some i
        \<and> deferredReply (fst (snd (onManagerMsg c msg w))) = None
        \<and> promises (snd (snd (onManagerMsg c msg w))) = map (settle i (Resolved m)) (promises w)
        \<and> deferredId (snd (snd (onManagerMsg c msg w))) = deferredId w
        \<and> (\<forall>j. resolve_calls j (trace (snd (snd (onManagerMsg c msg w))))
               = resolve_calls j (trace w) + (if j = i then 1 else 0)))"
proof -
  have I: "\<And>nm ty pr ba h app w r w'. new_IpcSocket nm ty pr ba h app w = (r, w') \<Longrightarrow>
      promises w' = promises w \<and> deferredId w' = deferredId w
      \<and> (\<forall>j. resolve_calls j (trace w') = resolve_calls j (trace w))"
    using new_IpcSocket_deferreds by (metis snd_conv)
  have C: "\<And>s w s' w'. connect s w = (s', w') \<Longrightarrow>
      promises w' = promises w \<and> deferredId w' = deferredId w
      \<and> (\<forall>j. resolve_calls j (trace w') = resolve_calls j (trace w))"
    using connect_deferreds by (metis snd_conv)
  show ?thesis
    by (auto simp: onManagerMsg_def unchanged_def Let_def resolve_calls_append resolve_deferreds
        split: option.splits sum.splits prod.splits dest!: I C)
qed

lemma register_summary:
  "unchanged (c, w) (snd (register c w))
   \<or> (deferredReply c = None
        \<and> deferredReply (fst (snd (register c w))) = Some (deferredId w + 1)
        \<and> promises (snd (snd (register c w))) = promises w @ [(deferredId w + 1, Pending)]
        \<and> deferredId (snd (snd (register c w))) = deferredId w + 1
        \<and> (\<forall>j. resolve_calls j (trace (snd (snd (register c w)))) = resolve_calls j (trace w)))"
proof -
  have I: "\<And>nm ty pr ba h app w r w'. new_IpcSocket nm ty pr ba h app w = (r, w') \<Longrightarrow>
      promises w' = promises w \<and> deferredId w' = deferredId w
      \<and> (\<forall>j. resolve_calls j (trace w') = resolve_calls j (trace w))"
    using new_IpcSocket_deferreds by (metis snd_conv)
  have C: "\<And>s w s' w'. connect s w = (s', w') \<Longrightarrow>
      promises w' = promises w \<and> deferredId w' = deferredId w
      \<and> (\<forall>j. resolve_calls j (trace w') = resolve_calls j (trace w))"
    using connect_deferreds by (metis snd_conv)
  have D: "\<And>w d w'. Deferred w = (d, w') \<Longrightarrow>
      d = deferredId w + 1 \<and> promises w' = promises w @ [(deferredId w + 1, Pending)]
      \<and> deferredId w' = deferredId w + 1
      \<and> (\<forall>j. resolve_calls j (trace w') = resolve_calls j (trace w))"
    using Deferred_deferreds by (metis fst_conv snd_conv)
  show ?thesis
    by (auto simp: register_def unchanged_def Let_def resolve_calls_append sendJson_deferreds
        split: option.splits sum.splits prod.splits dest!: I C D)
qed

lemma unload_summary: "unchanged (c, w) (unload c w)"
proof -
  have C: "\<And>s w s' w'. close s w = (s', w') \<Longrightarrow>
      promises w' = promises w \<and> deferredId w' = deferredId w
      \<and> (\<forall>j. resolve_calls j (trace w') = resolve_calls j (trace w))"
    using close_deferreds by (metis snd_conv)
  show ?thesis
    by (auto simp: unload_def unchanged_def Let_def resolve_calls_append
        split: option.splits prod.splits dest!: C)
qed

lemma pending_settle:
  "st \<noteq> Pending \<Longrightarrow>
   map fst (filter (\<lambda>e. snd e = Pending) (map (settle i st) ps))
   = filter (\<lambda>j. j \<noteq> i) (map fst (filter (\<lambda>e. snd e = Pending) ps))"
  by (induction ps) (auto simp: settle_def)

lemma pending_le:
  "\<forall>e \<in> set (promises w). fst e \<le> deferredId w \<Longrightarrow> j \<in> set (pending w) \<Longrightarrow> j \<le> deferredId w"
  by (auto simp: pending_def)

lemma single_flight_unchanged:
  assumes "single_flight cw" and "unchanged cw cw'"
  shows "single_flight cw'"
proof -
  from assms(2) have p: "pending (snd cw') = pending (snd cw)"
    by (simp add: unchanged_def pending_def)
  from assms(2) have q: "deferredReply (fst cw') = deferredReply (fst cw)"
    "promises (snd cw') = promises (snd cw)" "deferredId (snd cw') = deferredId (snd cw)"
    "\<And>j. resolve_calls j (trace (snd cw')) = resolve_calls j (trace (snd cw))"
    by (simp_all add: unchanged_def)
  from assms(1) show ?thesis
    unfolding single_flight_def p q .
qed

lemma single_flight_resolved:
  assumes inv: "single_flight (c, w)"
    and dr: "deferredReply c = Some i" "deferredReply c' = None"
    and ps: "promises w' = map (settle i (Resolved m)) (promises w)"
    and di: "deferredId w' = deferredId w"
    and rc: "\<forall>j. resolve_calls j (trace w') = resolve_calls j (trace w) + (if j = i then 1 else 0)"
  shows "single_flight (c', w')"
proof -
  from inv dr have pw: "pending w = [i]" by (simp add: single_flight_def)
  from inv have le: "\<forall>e \<in> set (promises w). fst e \<le> deferredId w"
    by (simp add: single_flight_def)
  from pw le have ile: "i \<le> deferredId w" by (simp add: pending_le)
  from inv pw have zero: "resolve_calls i (trace w) = 0" by (simp add: single_flight_def)
  have pw': "pending w' = []"
    using pw by (simp add: pending_def ps pending_settle)
  have B: "\<forall>e \<in> set (promises w'). fst e \<le> deferredId w'"
    using le by (auto simp: ps di settle_def)
  have C: "\<forall>j. resolve_calls j (trace w') \<le> 1"
    using inv zero rc by (simp add: single_flight_def)
  have E: "\<forall>j. deferredId w' < j \<longrightarrow> resolve_calls j (trace w') = 0"
    using inv ile rc di by (auto simp: single_flight_def)
  show ?thesis
    using pw' B C E dr by (simp add: single_flight_def)
qed

lemma single_flight_created:
  assumes inv: "single_flight (c, w)"
    and dr: "deferredReply c = None" "deferredReply c' = Some (deferredId w + 1)"
    and ps: "promises w' = promises w @ [(deferredId w + 1, Pending)]"
    and di: "deferredId w' = deferredId w + 1"
    and rc: "\<forall>j. resolve_calls j (trace w') = resolve_calls j (trace w)"
  shows "single_flight (c', w')"
proof -
  from inv dr have pw: "pending w = []" by (simp add: single_flight_def)
  then have pw': "pending w' = [deferredId w + 1]" by (simp add: pending_def ps)
  have B: "\<forall>e \<in> set (promises w'). fst e \<le> deferredId w'"
    using inv by (auto simp: single_flight_def ps di)
  have C: "\<forall>j. resolve_calls j (trace w') \<le> 1"
    using inv rc by (simp add: single_flight_def)
  have D: "resolve_calls (deferredId w + 1) (trace w') = 0"
    using inv rc by (simp add: single_flight_def)
  have E: "\<forall>j. deferredId w' < j \<longrightarrow> resolve_calls j (trace w') = 0"
    using inv rc di by (simp add: single_flight_def)
  show ?thesis
    using pw' B C D E dr by (simp add: single_flight_def)
qed

lemma single_flight_register:
  assumes inv: "single_flight (c, w)"
  shows "single_flight (snd (register c w))"
  using register_summary [of c w]
proof
  assume "unchanged (c, w) (snd (register c w))"
  with inv show ?thesis by (rule single_flight_unchanged)
next
  assume a: "deferredReply c = None
    \<and> deferredReply (fst (snd (register c w))) = Some (deferredId w + 1)
    \<and> promises (snd (snd (register c w))) = promises w @ [(deferredId w + 1, Pending)]
    \<and> deferredId (snd (snd (register c w))) = deferredId w + 1
    \<and> (\<forall>j. resolve_calls j (trace (snd (snd (register c w)))) = resolve_calls j (trace w))"
  have "single_flight (fst (snd (register c w)), snd (snd (register c w)))"
    by (rule single_flight_created [OF inv]) (use a in blast)+
  then show ?thesis by simp
qed

lemma single_flight_onManagerMsg:
  assumes inv: "single_flight (c, w)"
  shows "single_flight (snd (onManagerMsg c msg w))"
  using onManagerMsg_summary [of c w msg]
proof
  assume "unchanged (c, w) (snd (onManagerMsg c msg w))"
  with inv show ?thesis by (rule single_flight_unchanged)
next
  assume "\<exists>i m. deferredReply c = Some i
    \<and> deferredReply (fst (snd (onManagerMsg c msg w))) = None
    \<and> promises (snd (snd (onManagerMsg c msg w))) = map (settle i (Resolved m)) (promises w)
    \<and> deferredId (snd (snd (onManagerMsg c msg w))) = deferredId w
    \<and> (\<forall>j. resolve_calls j (trace (snd (snd (onManagerMsg c msg w))))
           = resolve_calls j (trace w) + (if j = i then 1 else 0))"
  then obtain i m where a: "deferredReply c = Some i"
    "deferredReply (fst (snd (onManagerMsg c msg w))) = None"
    "promises (snd (snd (onManagerMsg c msg w))) = map (settle i (Resolved m)) (promises w)"
    "deferredId (snd (snd (onManagerMsg c msg w))) = deferredId w"
    "\<forall>j. resolve_calls j (trace (snd (snd (onManagerMsg c msg w))))
           = resolve_calls j (trace w) + (if j = i then 1 else 0)"
    by blast
  have "single_flight (fst (snd (onManagerMsg c msg w)), snd (snd (onManagerMsg c msg w)))"
    by (rule single_flight_resolved [OF inv a])
  then show ?thesis by simp
qed

lemma single_flight_step: "single_flight cw \<Longrightarrow> single_flight (step cw call)"
proof -
  assume inv: "single_flight cw"
  obtain c w where cw: "cw = (c, w)" by (cases cw)
  show ?thesis
  proof (cases call)
    case Register
    with inv cw show ?thesis by (simp add: single_flight_register)
  next
    case (ManagerMsg msg)
    with inv cw show ?thesis by (simp add: single_flight_onManagerMsg)
  next
    case Unload
    from inv cw have "single_flight (unload c w)"
      using unload_summary [of c w] by (simp add: single_flight_unchanged)
    with cw Unload show ?thesis by simp
  qed
qed

lemma single_flight_run: "single_flight cw \<Longrightarrow> single_flight (run cw calls)"
  unfolding run_def by (induction calls arbitrary: cw) (simp_all add: single_flight_step)

lemma single_flight_initial: "single_flight (PluginClient pid proto app verb, initial_world fs)"
  by (simp add: single_flight_def PluginClient_def initial_world_def pending_def)

lemma pending_trace [simp]: "pending (w \<lparr> trace := t \<rparr>) = pending w"
  by (simp add: pending_def)

lemma acme_registering_value:
  "acme_registering =
     (\<lparr> pluginId = ''acme'', ipcProtocol = ''inproc'', appInstance = ''app'', verbose = False,
        deferredReply = Some 1, gatewayVersion = JUndefined, userProfile = JUndefined,
        addonManager = None, pluginIpcBaseAddr = JUndefined, pluginIpcSocket = None,
        managerIpcSocket = None \<rparr>,
      \<lparr> boundAddrs = {}, connectedAddrs = {}, socketIdCounter = 0, deferredId = 1,
        promises = [(1, Pending)], files = {}, endpoints = [], trace = [] \<rparr>)"
  by code_simp

text \<open>
  Claim C6.  A client that awaits the registration reply and receives a message of another
  type logs two error lines (after the verbose line, when verbose) and changes nothing
  else: the client is as it was, no socket is created, the pending promise stays pending
  and its resolve function is not called.
\<close>

theorem unexpected_reply:
  assumes "deferredReply c = Some i"
    and "get_member msg ''messageType'' = Inr mt"
    and "mt \<noteq> PLUGIN_REGISTER_RESPONSE"
  shows "onManagerMsg c msg w =
     (Inr (), c,
      w \<lparr> trace := trace w
            @ (if verbose c then [ConsoleLog [JStr ''PluginClient: rcvd ManagerMsg:'', msg]] else [])
            @ [ConsoleError [JStr ''Unexpected registration reply for gateway''],
               ConsoleError [msg]] \<rparr>)
     \<and> pending (snd (snd (onManagerMsg c msg w))) = pending w
     \<and> resolve_calls i (trace (snd (snd (onManagerMsg c msg w)))) = resolve_calls i (trace w)"
  using assms by (simp add: onManagerMsg_def emit_def Let_def pending_def resolve_calls_append)

text \<open>The client of \<^verbatim>\<open>acme\<close>, registering, receives a \<^verbatim>\<open>DEVICE_ADDED\<close> message.\<close>

theorem unexpected_reply_witness:
  "onManagerMsg (fst acme_registering) unexpected_msg (snd acme_registering) =
     (Inr (), fst acme_registering,
      (snd acme_registering)
        \<lparr> trace := trace (snd acme_registering)
             @ [ConsoleError [JStr ''Unexpected registration reply for gateway''],
                ConsoleError [unexpected_msg]] \<rparr>)
   \<and> pending (snd (snd (onManagerMsg (fst acme_registering) unexpected_msg (snd acme_registering))))
       = [1]"
proof -
  have h1: "deferredReply (fst acme_registering) = Some 1"
    by (simp add: acme_registering_value)
  have h2: "get_member unexpected_msg ''messageType'' = Inr (JStr ''DEVICE_ADDED'')"
    by (simp add: unexpected_msg_def)
  have h3: "JStr ''DEVICE_ADDED'' \<noteq> PLUGIN_REGISTER_RESPONSE"
    by (simp add: PLUGIN_REGISTER_RESPONSE_def)
  have v: "\<not> verbose (fst acme_registering)"
    by (simp add: acme_registering_value)
  have p: "pending (snd acme_registering) = [1]"
    by (simp add: acme_registering_value pending_def)
  from unexpected_reply [OF h1 h2 h3, of "snd acme_registering"] v
  have "onManagerMsg (fst acme_registering) unexpected_msg (snd acme_registering) =
     (Inr (), fst acme_registering,
      (snd acme_registering)
        \<lparr> trace := trace (snd acme_registering)
             @ [ConsoleError [JStr ''Unexpected registration reply for gateway''],
                ConsoleError [unexpected_msg]] \<rparr>)"
    and "pending (snd (snd (onManagerMsg (fst acme_registering) unexpected_msg (snd acme_registering))))
       = pending (snd acme_registering)"
    by simp_all
  with p show ?thesis by simp
qed

text \<open>
  Claim C2 does not hold of the code.  What \<^verbatim>\<open>onManagerMsg\<close> does with a
  \<^verbatim>\<open>PLUGIN_REGISTER_RESPONSE\<close> whose \<^verbatim>\<open>data\<close> can be read, in a client that awaits the reply:
  it stores \<^verbatim>\<open>gatewayVersion\<close> and \<^verbatim>\<open>userProfile\<close>, constructs the manager proxy, stores
  \<^verbatim>\<open>ipcBaseAddr\<close>, and then \<^verbatim>\<open>new IpcSocket(...)\<close> throws a \<^verbatim>\<open>TypeError\<close>.  No session
  socket is created or connected, \<open>deferredReply\<close> stays set, and the pending promise is
  not resolved.
\<close>

theorem registration_response_throws:
  assumes "deferredReply c = Some i"
    and "get_member msg ''messageType'' = Inr PLUGIN_REGISTER_RESPONSE"
    and "get_member msg ''data'' = Inr dat"
    and "get_member dat ''gatewayVersion'' = Inr gv"
    and "get_member dat ''userProfile'' = Inr up"
    and "get_member dat ''ipcBaseAddr'' = Inr addr"
  shows "onManagerMsg c msg w =
       (Inl TypeError,
        c \<lparr> gatewayVersion := gv, userProfile := up,
            addonManager := Some (AddonManagerProxy (pluginId c)),
            pluginIpcBaseAddr := addr \<rparr>,
        w \<lparr> trace := trace w
              @ (if verbose c then [ConsoleLog [JStr ''PluginClient: rcvd ManagerMsg:'', msg]]
                 else []) \<rparr>)
     \<and> pluginIpcSocket (fst (snd (onManagerMsg c msg w))) = pluginIpcSocket c
     \<and> deferredReply (fst (snd (onManagerMsg c msg w))) = Some i
     \<and> pending (snd (snd (onManagerMsg c msg w))) = pending w
     \<and> resolve_calls i (trace (snd (snd (onManagerMsg c msg w)))) = resolve_calls i (trace w)"
  using assms
  by (simp add: onManagerMsg_def get_member2_def new_IpcSocket_def IpcSocket_imported_def
      emit_def Let_def resolve_calls_append)

text \<open>Scenario A of the spec: the client of \<^verbatim>\<open>acme\<close>, registering, receives the response.\<close>

theorem registration_response_throws_witness:
  "onManagerMsg (fst acme_registering) response_A (snd acme_registering) =
     (Inl TypeError,
      (fst acme_registering)
        \<lparr> gatewayVersion := JStr ''1.0'', userProfile := JObj [],
          addonManager := Some (AddonManagerProxy ''acme''),
          pluginIpcBaseAddr := JStr ''acme.session'' \<rparr>,
      snd acme_registering)
   \<and> pluginIpcSocket (fst (snd (onManagerMsg (fst acme_registering) response_A (snd acme_registering))))
       = None
   \<and> pending (snd (snd (onManagerMsg (fst acme_registering) response_A (snd acme_registering))))
       = [1]"
proof -
  have h1: "deferredReply (fst acme_registering) = Some 1"
    by (simp add: acme_registering_value)
  have h2: "get_member response_A ''messageType'' = Inr PLUGIN_REGISTER_RESPONSE"
    by (simp add: response_A_def PLUGIN_REGISTER_RESPONSE_def)
  have h3: "get_member response_A ''data'' = Inr response_data_A"
    by (simp add: response_A_def)
  have h4: "get_member response_data_A ''gatewayVersion'' = Inr (JStr ''1.0'')"
    by (simp add: response_data_A_def)
  have h5: "get_member response_data_A ''userProfile'' = Inr (JObj [])"
    by (simp add: response_data_A_def)
  have h6: "get_member response_data_A ''ipcBaseAddr'' = Inr (JStr ''acme.session'')"
    by (simp add: response_data_A_def)
  have f: "pluginId (fst acme_registering) = ''acme''" "\<not> verbose (fst acme_registering)"
    "pluginIpcSocket (fst acme_registering) = None"
    by (simp_all add: acme_registering_value)
  have p: "pending (snd acme_registering) = [1]"
    by (simp add: acme_registering_value pending_def)
  from registration_response_throws [OF h1 h2 h3 h4 h5 h6, of "snd acme_registering"] f p
  have "onManagerMsg (fst acme_registering) response_A (snd acme_registering) =
     (Inl TypeError,
      (fst acme_registering)
        \<lparr> gatewayVersion := JStr ''1.0'', userProfile := JObj [],
          addonManager := Some (AddonManagerProxy ''acme''),
          pluginIpcBaseAddr := JStr ''acme.session'' \<rparr>,
      snd acme_registering)"
    by simp
  with f p show ?thesis by simp
qed

text \<open>
  Claim C3.  \<^verbatim>\<open>register()\<close> called while a reply is awaited logs an error and returns
  \<^verbatim>\<open>undefined\<close>; the client and the world are as they were but for the log line: no socket
  is created or connected, nothing is sent, no promise is created.  And after any sequence
  of calls of \<^verbatim>\<open>register()\<close>, \<^verbatim>\<open>onManagerMsg(msg)\<close> (any message) and \<^verbatim>\<open>unload()\<close> on a new
  client in a fresh process, at most one promise is pending and no promise has had its
  resolve function called more than once.
\<close>

theorem register_single_flight:
  "(deferredReply c \<noteq> None \<longrightarrow>
      register c w =
        (Inr None, c,
         w \<lparr> trace := trace w @ [ConsoleError [JStr ''Already waiting for registration reply'']] \<rparr>))
   \<and> length (pending (snd (run (PluginClient pid proto app verb, initial_world fs) calls))) \<le> 1
   \<and> resolve_calls j (trace (snd (run (PluginClient pid proto app verb, initial_world fs) calls))) \<le> 1"
proof -
  have "single_flight (run (PluginClient pid proto app verb, initial_world fs) calls)"
    by (simp add: single_flight_run single_flight_initial)
  then have "length (pending (snd (run (PluginClient pid proto app verb, initial_world fs) calls))) \<le> 1"
    and "resolve_calls j (trace (snd (run (PluginClient pid proto app verb, initial_world fs) calls))) \<le> 1"
    by (auto simp: single_flight_def split: option.splits)
  moreover have "deferredReply c \<noteq> None \<longrightarrow>
      register c w =
        (Inr None, c,
         w \<lparr> trace := trace w @ [ConsoleError [JStr ''Already waiting for registration reply'']] \<rparr>)"
    by (simp add: register_def emit_def)
  ultimately show ?thesis by blast
qed

text \<open>The client of \<^verbatim>\<open>acme\<close> calls \<^verbatim>\<open>register()\<close> twice: one promise, and the log line.\<close>

theorem register_single_flight_witness:
  "deferredReply (fst acme_registering) = Some 1
   \<and> register (fst acme_registering) (snd acme_registering) =
       (Inr None, fst acme_registering,
        (snd acme_registering)
          \<lparr> trace := trace (snd acme_registering)
               @ [ConsoleError [JStr ''Already waiting for registration reply'']] \<rparr>)
   \<and> trace (snd (run acme_start [Register, Register])) =
       [ConsoleError [JStr ''Already waiting for registration reply'']]
   \<and> pending (snd (run acme_start [Register, Register])) = [1]"
proof -
  have h: "deferredReply (fst acme_registering) = Some 1"
    by (simp add: acme_registering_value)
  have e: "trace (snd (run acme_start [Register, Register])) =
       [ConsoleError [JStr ''Already waiting for registration reply'']]"
    by code_simp
  have p: "pending (snd (run acme_start [Register, Register])) = [1]"
    by code_simp
  from h have "deferredReply (fst acme_registering) \<noteq> None" by simp
  with register_single_flight [of "fst acme_registering" "snd acme_registering"] h e p
  show ?thesis by blast
qed

end
